theory Spec2Isabelle
  imports Main "HOL-Library.Sublist"
begin

section \<open>JavaScript strings\<close>

text \<open>
  A JavaScript string is modelled as a \<open>string\<close>: a list of code units, restricted to
  the code units below 256. The operations below are the ones \<open>index.js\<close> calls on
  strings, with the semantics ECMAScript gives them on that range.
\<close>

definition sq :: char where
  "sq = CHR 0x27"

definition dq :: char where
  "dq = CHR 0x22"

definition nl :: char where
  "nl = CHR 0x0A"

text \<open>White space and line terminators below 256: what \<open>\s\<close> matches and \<open>trim\<close> strips.\<close>

definition js_space :: "char \<Rightarrow> bool" where
  "js_space c = (c \<in> set [CHR 0x09, CHR 0x0A, CHR 0x0B, CHR 0x0C, CHR 0x0D, CHR 0x20, CHR 0xA0])"

text \<open>\<open>String.prototype.includes\<close>: the needle occurs as a contiguous substring.\<close>

fun js_includes :: "string \<Rightarrow> string \<Rightarrow> bool" where
  "js_includes [] needle = (needle = [])"
| "js_includes (c # cs) needle = (prefix needle (c # cs) \<or> js_includes cs needle)"

text \<open>\<open>String.prototype.trim\<close>.\<close>

definition js_trim :: "string \<Rightarrow> string" where
  "js_trim s = rev (dropWhile js_space (rev (dropWhile js_space s)))"

text \<open>\<open>s.split('\n')\<close>: always at least one piece; an empty string gives one empty piece.\<close>

fun js_split_nl :: "string \<Rightarrow> string list" where
  "js_split_nl [] = [[]]"
| "js_split_nl (c # cs) =
     (if c = nl then [] # js_split_nl cs
      else (case js_split_nl cs of
              [] \<Rightarrow> [[c]]
            | p # ps \<Rightarrow> (c # p) # ps))"

text \<open>\<open>Array.prototype.join\<close> on an array of strings.\<close>

fun js_join :: "string \<Rightarrow> string list \<Rightarrow> string" where
  "js_join sep [] = []"
| "js_join sep [x] = x"
| "js_join sep (x # y # ys) = x @ sep @ js_join sep (y # ys)"

text \<open>A string in a boolean position: the empty string is falsy.\<close>

definition truthy :: "string \<Rightarrow> bool" where
  "truthy s = (s \<noteq> [])"

text \<open>\<open>a || b\<close> where \<open>a\<close> is a string that may be undefined.\<close>

definition js_or :: "string option \<Rightarrow> string \<Rightarrow> string" where
  "js_or a b = (case a of None \<Rightarrow> b | Some s \<Rightarrow> if truthy s then s else b)"

text \<open>A boolean and a non-negative integer interpolated into a template literal.\<close>

definition js_bool :: "bool \<Rightarrow> string" where
  "js_bool b = (if b then ''true'' else ''false'')"

definition digit_char :: "nat \<Rightarrow> char" where
  "digit_char d = ''0123456789'' ! d"

fun js_nat :: "nat \<Rightarrow> string" where
  "js_nat n = (if n < 10 then [digit_char n] else js_nat (n div 10) @ [digit_char (n mod 10)])"

declare js_nat.simps [simp del]

subsection \<open>The regular expressions of the configuration patcher\<close>

text \<open>
  The patterns of \<open>updateWpConfig\<close> are sequences of single characters, character classes
  and greedy starred classes, with an optional end anchor. \<open>rmatch\<close> is a backtracking
  matcher for that fragment: it returns the text left after the match that a greedy,
  leftmost-first search finds at the start of the subject.
\<close>

datatype cclass = Space | Quote | NotQuote | AnyChar | Lit char

datatype ritem = One cclass | Star cclass | EndAnchor

fun in_class :: "cclass \<Rightarrow> char \<Rightarrow> bool" where
  "in_class Space c = js_space c"
| "in_class Quote c = (c = sq \<or> c = dq)"
| "in_class NotQuote c = (c \<noteq> sq \<and> c \<noteq> dq)"
| "in_class AnyChar c = True"
| "in_class (Lit l) c = (c = l)"

fun rmatch :: "ritem list \<Rightarrow> string \<Rightarrow> string option" where
  "rmatch [] s = Some s"
| "rmatch (EndAnchor # r) s = (if s = [] then rmatch r s else None)"
| "rmatch (One k # r) [] = None"
| "rmatch (One k # r) (c # cs) = (if in_class k c then rmatch r cs else None)"
| "rmatch (Star k # r) [] = rmatch r []"
| "rmatch (Star k # r) (c # cs) =
     (if in_class k c
      then (case rmatch (Star k # r) cs of
              Some rest \<Rightarrow> Some rest
            | None \<Rightarrow> rmatch r (c # cs))
      else rmatch r (c # cs))"

text \<open>The leftmost match: the text before it, the matched text, the text after it.\<close>

fun rsearch :: "ritem list \<Rightarrow> string \<Rightarrow> string \<Rightarrow> (string \<times> string \<times> string) option" where
  "rsearch re pre [] =
     (case rmatch re [] of
        Some rest \<Rightarrow> Some (pre, [], [])
      | None \<Rightarrow> None)"
| "rsearch re pre (c # cs) =
     (case rmatch re (c # cs) of
        Some rest \<Rightarrow> Some (pre, take (length (c # cs) - length rest) (c # cs), rest)
      | None \<Rightarrow> rsearch re (pre @ [c]) cs)"

text \<open>
  \<open>GetSubstitution\<close> for a pattern without capture groups: in the replacement text
  \<open>$$\<close> is a dollar sign, \<open>$&\<close> the matched text, \<open>$`\<close> the text before the match and
  \<open>$'\<close> the text after it; every other character, a dollar sign before a digit or
  \<open><\<close> included, stands for itself.
\<close>

fun get_substitution :: "string \<Rightarrow> string \<Rightarrow> string \<Rightarrow> string \<Rightarrow> string" where
  "get_substitution m b a [] = []"
| "get_substitution m b a [c] = [c]"
| "get_substitution m b a (c # d # r) =
     (if c = CHR ''$'' \<and> d = CHR ''$'' then CHR ''$'' # get_substitution m b a r
      else if c = CHR ''$'' \<and> d = CHR ''&'' then m @ get_substitution m b a r
      else if c = CHR ''$'' \<and> d = CHR 0x60 then b @ get_substitution m b a r
      else if c = CHR ''$'' \<and> d = sq then a @ get_substitution m b a r
      else c # get_substitution m b a (d # r))"

text \<open>\<open>s.replace(pattern, replacement)\<close> with a string pattern: its first occurrence.\<close>

fun str_search :: "string \<Rightarrow> string \<Rightarrow> string \<Rightarrow> (string \<times> string) option" where
  "str_search pat pre [] = (if pat = [] then Some (pre, []) else None)"
| "str_search pat pre (c # cs) =
     (if prefix pat (c # cs) then Some (pre, drop (length pat) (c # cs))
      else str_search pat (pre @ [c]) cs)"

definition js_replace_str :: "string \<Rightarrow> string \<Rightarrow> string \<Rightarrow> string" where
  "js_replace_str pat replacement s =
     (case str_search pat [] s of
        None \<Rightarrow> s
      | Some (b, a) \<Rightarrow> b @ get_substitution pat b a replacement @ a)"

text \<open>\<open>s.replace(re, replacement)\<close> for a pattern without the global flag.\<close>

definition js_replace :: "ritem list \<Rightarrow> string \<Rightarrow> string \<Rightarrow> string" where
  "js_replace re replacement s =
     (case rsearch re [] s of
        None \<Rightarrow> s
      | Some (b, m, a) \<Rightarrow> b @ get_substitution m b a replacement @ a)"

definition lit :: "string \<Rightarrow> ritem list" where
  "lit s = map (\<lambda>c. One (Lit c)) s"

text \<open>\<open>/define\s*\(\s*['"]KEY['"]\s*,\s*['"][^'"]*['"]\s*\)/\<close>\<close>

definition define_re :: "string \<Rightarrow> ritem list" where
  "define_re key =
     lit ''define'' @ [Star Space, One (Lit (CHR ''('')), Star Space, One Quote] @ lit key @
     [One Quote, Star Space, One (Lit (CHR '','')), Star Space, One Quote, Star NotQuote,
      One Quote, Star Space, One (Lit (CHR '')''))]"

text \<open>\<open>/\/\*\s*That's all, stop editing!.*$/s\<close>: with the \<open>s\<close> flag the dot matches line
  terminators too, and without the \<open>m\<close> flag the anchor is the end of the text.\<close>

definition stop_editing_re :: "ritem list" where
  "stop_editing_re =
     [One (Lit (CHR ''/'')), One (Lit (CHR ''*'')), Star Space] @
     lit ''That's all, stop editing!'' @ [Star AnyChar, EndAnchor]"

definition stop_editing :: string where
  "stop_editing = ''/* That's all, stop editing! Happy publishing. */''"

section \<open>Configuration and instance state\<close>

text \<open>
  The fields of \<open>config.json\<close> that the database, patcher, migration and admin stages
  read, one record per section. \<open>null\<close> or a missing value is \<open>None\<close>.
\<close>

record docker_cfg =
  docker_enabled :: bool
  docker_containerName :: string
  docker_image :: string
  docker_port :: nat
  docker_rootPassword :: string
  docker_dataVolume :: string
  docker_network :: string

record database_cfg =
  db_host :: string
  db_user :: string
  db_password :: string
  db_port :: nat
  db_charset :: string
  db_collate :: string
  db_prefix :: string
  db_createUser :: bool
  db_userPrefix :: string
  db_grantPrivileges :: "string list"
  db_docker :: docker_cfg

record replacement =
  search :: string
  replace :: string

record searchReplace_cfg =
  sr_enabled :: bool
  sr_caseSensitive :: bool
  sr_regex :: bool
  sr_dryRun :: bool
  sr_additionalReplacements :: "replacement list"

record sql_cfg =
  sql_source :: "string option"
  sql_oldUrl :: string
  sql_oldDomain :: string
  sql_searchReplace :: searchReplace_cfg
  sql_optimizeAfterImport :: bool
  sql_repairAfterImport :: bool

record development_cfg =
  dev_enableDebug :: bool
  dev_debugLog :: bool
  dev_wpDebugLog :: bool
  dev_wpDebugDisplay :: bool
  dev_scriptDebug :: bool
  dev_saveQueries :: bool

record config =
  database :: database_cfg
  wp_adminUser :: string
  wp_memoryLimit :: string
  sql :: sql_cfg
  development :: development_cfg
  security_disableFileEditing :: bool
  valet_domain :: string
  custom_wpConfig :: "string list"
  advanced_skipDatabaseCreation :: bool
  advanced_skipSearchReplace :: bool
  advanced_verbose :: bool

text \<open>The fields of a \<open>WordPressSetup\<close> instance. \<open>dbUser\<close> and \<open>dbPassword\<close> are
  undefined until \<open>createDatabase\<close> creates a dedicated user.\<close>

record wordpress_setup =
  config :: config
  websiteName :: string
  websitePath :: string
  dbName :: string
  dbUser :: "string option"
  dbPassword :: "string option"
  adminPassword :: string
  adminEmail :: string

section \<open>The configuration patcher\<close>

text \<open>
  The text transformation of \<open>updateWpConfig\<close>: from the text read from
  \<open>wp-config.php\<close> and the salts \<open>generateSalts\<close> returned to the text written back.
\<close>

definition insert_before_marker :: "string \<Rightarrow> string \<Rightarrow> string" where
  "insert_before_marker block wpConfig = js_replace stop_editing_re (block @ stop_editing) wpConfig"

definition defined_in :: "string \<Rightarrow> string \<Rightarrow> bool" where
  "defined_in wpConfig key =
     (js_includes wpConfig (''define( '' @ [sq] @ key @ [sq])
      \<or> js_includes wpConfig (''define( '' @ [dq] @ key @ [dq]))"

definition define_stmt :: "string \<Rightarrow> string \<Rightarrow> string" where
  "define_stmt key v = ''define( '' @ [sq] @ key @ [sq] @ '', '' @ [sq] @ v @ [sq] @ '' )''"

definition debug_line :: "string \<Rightarrow> bool \<Rightarrow> string" where
  "debug_line key v = ''define( '' @ [sq] @ key @ [sq] @ '', '' @ js_bool v @ '' );''"

definition replace_database_configuration :: "wordpress_setup \<Rightarrow> string \<Rightarrow> string" where
  "replace_database_configuration this wpConfig0 =
     (let db = database (config this);
          dbUser' = js_or (dbUser this) (db_user db);
          dbPassword' = js_or (dbPassword this) (db_password db);
          wpConfig1 = js_replace (define_re ''DB_NAME'') (define_stmt ''DB_NAME'' (dbName this)) wpConfig0;
          wpConfig2 = js_replace (define_re ''DB_USER'') (define_stmt ''DB_USER'' dbUser') wpConfig1;
          wpConfig3 = js_replace (define_re ''DB_PASSWORD'') (define_stmt ''DB_PASSWORD'' dbPassword') wpConfig2;
          wpConfig4 = js_replace (define_re ''DB_HOST'')
                        (define_stmt ''DB_HOST'' (db_host db @ '':'' @ js_nat (db_port db))) wpConfig3;
          wpConfig5 = js_replace (define_re ''DB_CHARSET'') (define_stmt ''DB_CHARSET'' (db_charset db)) wpConfig4;
          wpConfig6 = js_replace (define_re ''DB_COLLATE'') (define_stmt ''DB_COLLATE'' (db_collate db)) wpConfig5
      in js_replace (define_re ''$table_prefix'') (define_stmt ''$table_prefix'' (db_prefix db)) wpConfig6)"

definition add_salts :: "string \<Rightarrow> string \<Rightarrow> string" where
  "add_salts salts wpConfig =
     (if \<not> js_includes wpConfig ''AUTH_KEY''
      then insert_before_marker (salts @ [nl, nl]) wpConfig
      else wpConfig)"

definition add_development_settings :: "wordpress_setup \<Rightarrow> string \<Rightarrow> string" where
  "add_development_settings this wpConfig =
     (let dev = development (config this) in
      if dev_enableDebug dev then
        (let debugSettings =
               (if \<not> defined_in wpConfig ''WP_DEBUG'' then [debug_line ''WP_DEBUG'' (dev_debugLog dev)] else []) @
               (if \<not> defined_in wpConfig ''WP_DEBUG_LOG'' then [debug_line ''WP_DEBUG_LOG'' (dev_wpDebugLog dev)] else []) @
               (if \<not> defined_in wpConfig ''WP_DEBUG_DISPLAY'' then [debug_line ''WP_DEBUG_DISPLAY'' (dev_wpDebugDisplay dev)] else []) @
               (if \<not> defined_in wpConfig ''SCRIPT_DEBUG'' then [debug_line ''SCRIPT_DEBUG'' (dev_scriptDebug dev)] else []) @
               (if \<not> defined_in wpConfig ''SAVEQUERIES'' then [debug_line ''SAVEQUERIES'' (dev_saveQueries dev)] else [])
         in if length debugSettings > 0
            then insert_before_marker
                   ([nl] @ ''// Development settings'' @ [nl] @ js_join [nl] debugSettings @ [nl, nl]) wpConfig
            else wpConfig)
      else wpConfig)"

definition add_security_settings :: "wordpress_setup \<Rightarrow> string \<Rightarrow> string" where
  "add_security_settings this wpConfig =
     (if security_disableFileEditing (config this) \<and> \<not> defined_in wpConfig ''DISALLOW_FILE_EDIT''
      then insert_before_marker
             ([nl] @ ''define( '' @ [sq] @ ''DISALLOW_FILE_EDIT'' @ [sq] @ '', true );'' @ [nl, nl]) wpConfig
      else wpConfig)"

definition add_performance_settings :: "wordpress_setup \<Rightarrow> string \<Rightarrow> string" where
  "add_performance_settings this wpConfig =
     (if truthy (wp_memoryLimit (config this)) \<and> \<not> defined_in wpConfig ''WP_MEMORY_LIMIT''
      then insert_before_marker
             ([nl] @ define_stmt ''WP_MEMORY_LIMIT'' (wp_memoryLimit (config this)) @ '';'' @ [nl, nl]) wpConfig
      else wpConfig)"

definition add_custom_lines :: "wordpress_setup \<Rightarrow> string \<Rightarrow> string" where
  "add_custom_lines this wpConfig =
     (if length (custom_wpConfig (config this)) > 0
      then insert_before_marker ([nl] @ js_join [nl] (custom_wpConfig (config this)) @ [nl] @ [nl]) wpConfig
      else wpConfig)"

definition wp_settings_require :: string where
  "wp_settings_require = ''require_once(ABSPATH . '' @ [sq] @ ''wp-settings.php'' @ [sq] @ '');''"

definition ensure_wp_settings :: "string \<Rightarrow> string" where
  "ensure_wp_settings wpConfig =
     (if \<not> js_includes wpConfig wp_settings_require
      then js_replace stop_editing_re ([nl] @ stop_editing @ [nl, nl] @ wp_settings_require) wpConfig
      else wpConfig)"

definition updateWpConfig :: "wordpress_setup \<Rightarrow> string \<Rightarrow> string \<Rightarrow> string" where
  "updateWpConfig this salts wpConfig =
     ensure_wp_settings
       (add_custom_lines this
         (add_performance_settings this
           (add_security_settings this
             (add_development_settings this
               (add_salts salts
                 (replace_database_configuration this wpConfig))))))"

section \<open>External collaborators and effects\<close>

text \<open>
  Every call that leaves the process goes through an environment: a record of functions
  from the call and the state of the outside world to the call's outcome and the next
  state of the world. An outcome is \<open>Inl message\<close> when the call throws and \<open>Inr\<close> of its
  value otherwise. The type of the world is a parameter, so a theorem about a stage holds
  for every behaviour of the collaborators. Output of the spinner and of \<open>console.log\<close>
  is left out; \<open>console.warn\<close> is kept.
\<close>

datatype statement =
    DropDatabaseIfExists string
  | CreateDatabase string string string
  | ShowDatabasesLike string
  | CreateUserIfNotExists string string string
  | GrantPrivileges "string list" string string string
  | FlushPrivileges
  | ShowTables
  | OptimizeTables
  | RepairTables
  | UpdateReplace string string string string
  | CountUsers string string
  | UpdateUserPass string string string
  | InsertUser string string string string string
  | SelectUserId string string
  | InsertCapabilities string string

text \<open>
  The statements, in the order of the constructors' arguments:
  \<^item> \<open>DROP DATABASE IF EXISTS `db`\<close>;
  \<^item> \<open>CREATE DATABASE `db` CHARACTER SET charset COLLATE collate\<close>;
  \<^item> \<open>SHOW DATABASES LIKE 'db'\<close>;
  \<^item> \<open>CREATE USER IF NOT EXISTS 'user'@'host' IDENTIFIED BY 'password'\<close>;
  \<^item> \<open>GRANT privileges ON `db`.* TO 'user'@'host'\<close>;
  \<^item> \<open>FLUSH PRIVILEGES\<close>; \<open>SHOW TABLES\<close>;
  \<^item> \<open>OPTIMIZE TABLE\<close> and \<open>REPAIR TABLE\<close> over the eleven \<open>wp_\<close> core tables;
  \<^item> \<open>UPDATE `table` SET column = REPLACE(column, 'search', 'replace') WHERE column LIKE '%search%'\<close>;
  \<^item> \<open>SELECT COUNT(*) as count FROM <prefix>users WHERE user_login = 'login'\<close>;
  \<^item> \<open>UPDATE <prefix>users SET user_pass = 'hash' WHERE user_login = 'login'\<close>;
  \<^item> \<open>INSERT INTO <prefix>users (...) VALUES ('login', 'hash', 'login', 'email', '', 'now', '', 0, 'login')\<close>;
  \<^item> \<open>SELECT ID FROM <prefix>users WHERE user_login = 'login'\<close>;
  \<^item> \<open>INSERT INTO <prefix>usermeta (user_id, meta_key, meta_value) VALUES
     (id, '<prefix>capabilities', 'a:1:{s:13:"administrator";b:1;}'), (id, '<prefix>user_level', '10')\<close>.
\<close>

text \<open>
  The \<open>mysql\<close> client's command line: \<open>mysql -h<host> -u<user> <passwordParam> -P<port> <database>\<close>,
  behind \<open>docker exec <container>\<close> when \<open>cli_container\<close> is set.
\<close>

record mysql_cli =
  cli_container :: "string option"
  cli_host :: string
  cli_user :: string
  cli_passwordParam :: string
  cli_port :: string
  cli_database :: string

datatype command =
    Shell string
  | DockerPsAll string
  | DockerPs string
  | DockerStart string
  | DockerVolumeCreate string
  | DockerRun string string nat string string string
  | MysqlExec mysql_cli statement
  | MysqlImport mysql_cli string
  | WpSearchReplace string string string string string string
  | WpHashPassword string string

text \<open>
  The commands passed to \<open>execSync\<close>, with the values interpolated into their text:
  \<^item> \<open>Shell\<close>: a command kept as text (the readiness probe);
  \<^item> \<open>docker ps -a --filter name=<name> --format "{{.Names}}"\<close>, the same without \<open>-a\<close>,
    \<open>docker start <name>\<close> and \<open>docker volume create <volume>\<close>;
  \<^item> \<open>docker run -d --name <name> -e MYSQL_ROOT_PASSWORD=<password> -p <port>:3306
    -v <volume>:/var/lib/mysql --network <network> <image>\<close>;
  \<^item> \<open>mysql ... -e "<statement>"\<close> and \<open>mysql ... < "<sqlPath>"\<close>;
  \<^item> \<open>wp search-replace "<search>" "<replace>" --path="<path>" --all-tables <dryRunFlag>
    <caseSensitiveFlag> <regexFlag>\<close>;
  \<^item> \<open>wp eval "echo wp_hash_password('<password>');" --path="<path>"\<close>.
  An event of the trace is a command run, a call on the database connection, the request
  to the salt service, a pause in milliseconds, or a warning printed.
\<close>

datatype event =
    Exec command
  | Connect string string string nat
  | Execute statement
  | EndConnection
  | HttpGet string
  | Sleep nat
  | Warn string

record 'w env =
  execSync :: "command \<Rightarrow> 'w \<Rightarrow> (string + string) \<times> 'w"
  createConnection :: "string \<Rightarrow> string \<Rightarrow> string \<Rightarrow> nat \<Rightarrow> 'w \<Rightarrow> (string + unit) \<times> 'w"
  execute :: "statement \<Rightarrow> 'w \<Rightarrow> (string + string list) \<times> 'w"
  endConnection :: "'w \<Rightarrow> (string + unit) \<times> 'w"
  axiosGet :: "string \<Rightarrow> 'w \<Rightarrow> (string + string) \<times> 'w"
  pathExists :: "string \<Rightarrow> 'w \<Rightarrow> bool"
  pathResolve :: "string \<Rightarrow> string"
  randomBelow :: "nat \<Rightarrow> 'w \<Rightarrow> nat \<times> 'w"
  isoNow :: "'w \<Rightarrow> string"
  md5hex :: "string \<Rightarrow> string"

record 'w state =
  world :: 'w
  trace :: "event list"

type_synonym ('w, 'a) prog = "'w state \<Rightarrow> (string + 'a) \<times> 'w state"

definition ok :: "'a \<Rightarrow> ('w, 'a) prog" where
  "ok x st = (Inr x, st)"

definition throw :: "string \<Rightarrow> ('w, 'a) prog" where
  "throw e st = (Inl e, st)"

definition bind :: "('w, 'a) prog \<Rightarrow> ('a \<Rightarrow> ('w, 'b) prog) \<Rightarrow> ('w, 'b) prog" where
  "bind m f st = (case m st of (Inl e, st') \<Rightarrow> (Inl e, st') | (Inr x, st') \<Rightarrow> f x st')"

definition try_catch :: "('w, 'a) prog \<Rightarrow> (string \<Rightarrow> ('w, 'a) prog) \<Rightarrow> ('w, 'a) prog" where
  "try_catch m h st = (case m st of (Inl e, st') \<Rightarrow> h e st' | (Inr x, st') \<Rightarrow> (Inr x, st'))"

definition emit :: "event \<Rightarrow> 'w state \<Rightarrow> 'w state" where
  "emit ev st = st\<lparr>trace := trace st @ [ev]\<rparr>"

definition call :: "event \<Rightarrow> ('w \<Rightarrow> (string + 'a) \<times> 'w) \<Rightarrow> ('w, 'a) prog" where
  "call ev f st = (case f (world st) of (r, w') \<Rightarrow> (r, \<lparr>world = w', trace = trace st @ [ev]\<rparr>))"

definition exec :: "'w env \<Rightarrow> command \<Rightarrow> ('w, string) prog" where
  "exec env cmd = call (Exec cmd) (execSync env cmd)"

definition sleep :: "nat \<Rightarrow> ('w, unit) prog" where
  "sleep ms st = (Inr (), emit (Sleep ms) st)"

definition warn :: "string \<Rightarrow> ('w, unit) prog" where
  "warn msg st = (Inr (), emit (Warn msg) st)"

section \<open>Random strings and salts\<close>

text \<open>\<open>chars.charAt(i)\<close>: the empty string when the index is out of range.\<close>

definition charAt :: "string \<Rightarrow> nat \<Rightarrow> string" where
  "charAt s i = (if i < length s then [s ! i] else [])"

text \<open>
  The loop \<open>for (i = 0; i < n; i++) key += chars.charAt(Math.floor(Math.random() * chars.length))\<close>.
  The environment's \<open>randomBelow\<close> stands for \<open>Math.floor(Math.random() * k)\<close>.
\<close>

fun random_chars :: "'w env \<Rightarrow> string \<Rightarrow> nat \<Rightarrow> 'w \<Rightarrow> string \<times> 'w" where
  "random_chars env chars 0 w = ([], w)"
| "random_chars env chars (Suc n) w =
     (case randomBelow env (length chars) w of
        (i, w1) \<Rightarrow> (case random_chars env chars n w1 of
                      (rest, w2) \<Rightarrow> (charAt chars i @ rest, w2)))"

definition password_chars :: string where
  "password_chars = ''abcdefghijklmnopqrstuvwxyzABCDEFGHIJKLMNOPQRSTUVWXYZ0123456789!@#$%^&*''"

definition generateRandomPassword :: "'w env \<Rightarrow> nat \<Rightarrow> 'w \<Rightarrow> string \<times> 'w" where
  "generateRandomPassword env len w = random_chars env password_chars len w"

definition salt_chars :: string where
  "salt_chars = ''abcdefghijklmnopqrstuvwxyzABCDEFGHIJKLMNOPQRSTUVWXYZ0123456789!@#$%^&*()''"

definition generateKey :: "'w env \<Rightarrow> 'w \<Rightarrow> string \<times> 'w" where
  "generateKey env w = random_chars env salt_chars 64 w"

text \<open>The names of the fallback template with the blanks that follow each comma.\<close>

definition salt_names :: "(string \<times> nat) list" where
  "salt_names =
     [(''AUTH_KEY'', 9), (''SECURE_AUTH_KEY'', 2), (''LOGGED_IN_KEY'', 4), (''NONCE_KEY'', 8),
      (''AUTH_SALT'', 8), (''SECURE_AUTH_SALT'', 1), (''LOGGED_IN_SALT'', 3), (''NONCE_SALT'', 7)]"

definition salt_line :: "string \<times> nat \<Rightarrow> string \<Rightarrow> string" where
  "salt_line kn v =
     [nl] @ ''define( '' @ [sq] @ fst kn @ [sq] @ '','' @ replicate (snd kn) (CHR '' '') @
     [sq] @ v @ [sq] @ '' );''"

text \<open>The template literal of the fallback: the keys are generated from left to right.\<close>

fun salt_lines :: "'w env \<Rightarrow> (string \<times> nat) list \<Rightarrow> 'w \<Rightarrow> string \<times> 'w" where
  "salt_lines env [] w = ([], w)"
| "salt_lines env (kn # kns) w =
     (case generateKey env w of
        (v, w1) \<Rightarrow> (case salt_lines env kns w1 of
                      (rest, w2) \<Rightarrow> (salt_line kn v @ rest, w2)))"

definition salt_url :: string where
  "salt_url = ''https://api.wordpress.org/secret-key/1.1/salt/''"

definition generateSalts :: "'w env \<Rightarrow> ('w, string) prog" where
  "generateSalts env st =
     (case call (HttpGet salt_url) (axiosGet env salt_url) st of
        (Inr data, st1) \<Rightarrow> (Inr data, st1)
      | (Inl error, st1) \<Rightarrow>
          (case salt_lines env salt_names (world st1) of
             (text, w2) \<Rightarrow> (Inr text, st1\<lparr>world := w2\<rparr>)))"

section \<open>Database lifecycle\<close>

definition getMysqlCommand :: "wordpress_setup \<Rightarrow> string \<Rightarrow> string" where
  "getMysqlCommand this command =
     (let db = database (config this) in
      if docker_enabled (db_docker db) then
        (let dockerCommand =
               js_replace_str (''-P'' @ js_nat (db_port db)) ''-P3306''
                 (js_replace_str (''-h'' @ db_host db) ''-hlocalhost'' command);
             dockerCommand' =
               (if db_password db = [] then js_replace_str ''-p '' [] dockerCommand else dockerCommand)
         in ''docker exec '' @ docker_containerName (db_docker db) @ '' '' @ dockerCommand')
      else command)"

definition testCommand :: "wordpress_setup \<Rightarrow> string" where
  "testCommand this =
     (let db = database (config this) in
      getMysqlCommand this
        (''mysql -h'' @ db_host db @ '' -u'' @ db_user db @ '' -p'' @ db_password db @
         '' -P'' @ js_nat (db_port db) @ '' -e '' @ [dq] @ ''SELECT 1'' @ [dq]))"

definition timeout_message :: string where
  "timeout_message = ''MySQL did not become ready within the timeout period''"

text \<open>The loop of \<open>waitForMysql\<close>, from attempt \<open>i\<close> on.\<close>

function waitForMysql_loop ::
    "'w env \<Rightarrow> wordpress_setup \<Rightarrow> nat \<Rightarrow> nat \<Rightarrow> ('w, unit) prog" where
  "waitForMysql_loop env this i maxAttempts st =
     (if i < maxAttempts then
        (case exec env (Shell (testCommand this)) st of
           (Inr out, st1) \<Rightarrow> (Inr (), st1)
         | (Inl error, st1) \<Rightarrow>
             waitForMysql_loop env this (Suc i) maxAttempts (snd (sleep 2000 st1)))
      else throw timeout_message st)"
  by pat_completeness auto
termination
  by (relation "measure (\<lambda>(env, this, i, maxAttempts, st). maxAttempts - i)") auto

declare waitForMysql_loop.simps [simp del]

definition waitForMysql :: "'w env \<Rightarrow> wordpress_setup \<Rightarrow> ('w, unit) prog" where
  "waitForMysql env this = waitForMysql_loop env this 0 30"

definition createDockerMysql :: "'w env \<Rightarrow> wordpress_setup \<Rightarrow> ('w, unit) prog" where
  "createDockerMysql env this =
     (let db = database (config this);
          dockerConfig = db_docker db;
          rootPassword = (if truthy (docker_rootPassword dockerConfig)
                          then docker_rootPassword dockerConfig else db_password db)
      in bind (try_catch (exec env (DockerVolumeCreate (docker_dataVolume dockerConfig)))
                 (\<lambda>error. ok []))
           (\<lambda>_. bind (try_catch
                         (exec env (DockerRun (docker_containerName dockerConfig) rootPassword
                            (docker_port dockerConfig) (docker_dataVolume dockerConfig)
                            (docker_network dockerConfig) (docker_image dockerConfig)))
                         (\<lambda>error. try_catch (exec env (DockerStart (docker_containerName dockerConfig)))
                            (\<lambda>startError.
                               throw (''Failed to create or start MySQL container: '' @ error))))
                   (\<lambda>_. waitForMysql env this)))"

definition ensureDockerMysql :: "'w env \<Rightarrow> wordpress_setup \<Rightarrow> ('w, unit) prog" where
  "ensureDockerMysql env this =
     (let name = docker_containerName (db_docker (database (config this))) in
      if \<not> docker_enabled (db_docker (database (config this))) then ok ()
      else bind (try_catch (bind (exec env (DockerPsAll name)) (\<lambda>out. ok (js_trim out)))
                   (\<lambda>error. ok []))
             (\<lambda>containerExists.
                if \<not> truthy containerExists then createDockerMysql env this
                else bind (try_catch (bind (exec env (DockerPs name)) (\<lambda>out. ok (js_trim out)))
                             (\<lambda>error. ok []))
                       (\<lambda>isRunning.
                          if \<not> truthy isRunning
                          then bind (exec env (DockerStart name)) (\<lambda>_. waitForMysql env this)
                          else ok ())))"

section \<open>Database provisioning\<close>

definition conn_execute :: "'w env \<Rightarrow> statement \<Rightarrow> ('w, string list) prog" where
  "conn_execute env stmt = call (Execute stmt) (execute env stmt)"

text \<open>The block of \<open>createDatabase\<close> that creates the dedicated user.\<close>

definition create_dedicated_user :: "'w env \<Rightarrow> wordpress_setup \<Rightarrow> ('w, wordpress_setup) prog" where
  "create_dedicated_user env this st =
     (let db = database (config this);
          dbUser' = db_userPrefix db @ websiteName this in
      case generateRandomPassword env 16 (world st) of
        (dbPassword', w1) \<Rightarrow>
          bind (conn_execute env (CreateUserIfNotExists dbUser' (db_host db) dbPassword'))
            (\<lambda>_. bind (conn_execute env
                          (GrantPrivileges (db_grantPrivileges db) (dbName this) dbUser' (db_host db)))
            (\<lambda>_. bind (conn_execute env FlushPrivileges)
            (\<lambda>_. ok (this\<lparr>dbUser := Some dbUser', dbPassword := Some dbPassword'\<rparr>))))
            (st\<lparr>world := w1\<rparr>))"

text \<open>The start of \<open>createDatabase\<close>: the container, then the connection as the configured user.\<close>

definition connect_configured :: "'w env \<Rightarrow> wordpress_setup \<Rightarrow> ('w, unit) prog" where
  "connect_configured env this =
     (let db = database (config this) in
      bind (if docker_enabled (db_docker db) then ensureDockerMysql env this else ok ())
        (\<lambda>_. call (Connect (db_host db) (db_user db) (db_password db) (db_port db))
               (createConnection env (db_host db) (db_user db) (db_password db) (db_port db))))"

definition createDatabase :: "'w env \<Rightarrow> wordpress_setup \<Rightarrow> ('w, wordpress_setup) prog" where
  "createDatabase env this =
     (let db = database (config this) in
      if advanced_skipDatabaseCreation (config this) then ok this
      else
        bind (connect_configured env this)
        (\<lambda>_. bind (conn_execute env (DropDatabaseIfExists (dbName this)))
        (\<lambda>_. bind (conn_execute env (CreateDatabase (dbName this) (db_charset db) (db_collate db)))
        (\<lambda>_. bind (conn_execute env (ShowDatabasesLike (dbName this)))
        (\<lambda>rows.
           if length rows = 0 then throw (''Failed to create database: '' @ dbName this)
           else bind (if db_createUser db then create_dedicated_user env this else ok this)
                  (\<lambda>this'. bind (call EndConnection (endConnection env))
                  (\<lambda>_. ok this')))))))"

section \<open>Content migration\<close>

definition passwordParam :: "string \<Rightarrow> string" where
  "passwordParam dbPassword' = (if dbPassword' = [] then [] else ''-p'' @ dbPassword')"

text \<open>
  The two branches every stage takes to build a \<open>mysql\<close> command line: inside the
  container the client talks to \<open>localhost:3306\<close>, otherwise to the configured host and port.
\<close>

definition mysql_command_line :: "wordpress_setup \<Rightarrow> string \<Rightarrow> string \<Rightarrow> mysql_cli" where
  "mysql_command_line this dbUser' dbPassword' =
     (let db = database (config this) in
      if docker_enabled (db_docker db)
      then \<lparr>cli_container = Some (docker_containerName (db_docker db)), cli_host = ''localhost'',
            cli_user = dbUser', cli_passwordParam = passwordParam dbPassword', cli_port = ''3306'',
            cli_database = dbName this\<rparr>
      else \<lparr>cli_container = None, cli_host = db_host db,
            cli_user = dbUser', cli_passwordParam = passwordParam dbPassword',
            cli_port = js_nat (db_port db), cli_database = dbName this\<rparr>)"

definition source_set :: "wordpress_setup \<Rightarrow> bool" where
  "source_set this = (case sql_source (sql (config this)) of None \<Rightarrow> False | Some p \<Rightarrow> truthy p)"

definition importDatabase :: "'w env \<Rightarrow> wordpress_setup \<Rightarrow> ('w, unit) prog" where
  "importDatabase env this st =
     (if \<not> source_set this then ok () st
      else
        (let sqlPath = pathResolve env (case sql_source (sql (config this)) of None \<Rightarrow> [] | Some p \<Rightarrow> p) in
         if \<not> pathExists env sqlPath (world st) then throw (''SQL file not found: '' @ sqlPath) st
         else
           (let dbUser' = js_or (dbUser this) (db_user (database (config this)));
                dbPassword' = js_or (dbPassword this) (db_password (database (config this)));
                cli = mysql_command_line this dbUser' dbPassword'
            in bind (exec env (MysqlImport cli sqlPath))
                 (\<lambda>_. bind (if sql_optimizeAfterImport (sql (config this))
                               then bind (exec env (MysqlExec cli OptimizeTables)) (\<lambda>_. ok ())
                               else ok ())
                 (\<lambda>_. if sql_repairAfterImport (sql (config this))
                      then bind (exec env (MysqlExec cli RepairTables)) (\<lambda>_. ok ())
                      else ok ())) st)))"

definition commonColumns :: "string list" where
  "commonColumns = [''post_content'', ''post_excerpt'', ''post_title'', ''comment_content'', ''meta_value'']"

text \<open>The inner loop of the raw strategy: a failing column update is skipped.\<close>

primrec column_loop ::
    "'w env \<Rightarrow> mysql_cli \<Rightarrow> string \<Rightarrow> string \<Rightarrow> string \<Rightarrow> string list \<Rightarrow> ('w, unit) prog" where
  "column_loop env cli table search' replace' [] = ok ()"
| "column_loop env cli table search' replace' (column # columns) =
     bind (try_catch
             (bind (exec env (MysqlExec cli (UpdateReplace table column search' replace'))) (\<lambda>_. ok ()))
             (\<lambda>columnError. ok ()))
       (\<lambda>_. column_loop env cli table search' replace' columns)"

text \<open>The loop over the tables: \<open>option_value\<close> first, the common columns when that fails.\<close>

primrec table_loop ::
    "'w env \<Rightarrow> mysql_cli \<Rightarrow> string \<Rightarrow> string \<Rightarrow> string list \<Rightarrow> ('w, unit) prog" where
  "table_loop env cli search' replace' [] = ok ()"
| "table_loop env cli search' replace' (table # tables) =
     bind (try_catch
             (bind (exec env (MysqlExec cli (UpdateReplace table ''option_value'' search' replace')))
                (\<lambda>_. ok ()))
             (\<lambda>error. column_loop env cli table search' replace' commonColumns))
       (\<lambda>_. table_loop env cli search' replace' tables)"

definition table_lines :: "string \<Rightarrow> string list" where
  "table_lines tablesOutput =
     filter (\<lambda>line. truthy (js_trim line) \<and> \<not> js_includes line ''Tables_in_'') (js_split_nl tablesOutput)"

text \<open>The connection details of the raw strategy, as \<open>performDirectSearchReplace\<close> reads them.\<close>

definition raw_cli :: "wordpress_setup \<Rightarrow> mysql_cli" where
  "raw_cli this =
     (let dbUser' = js_or (dbUser this) (db_user (database (config this)));
          dbPassword' = db_password (database (config this))
      in mysql_command_line this dbUser' dbPassword')"

definition performDirectSearchReplace ::
    "'w env \<Rightarrow> wordpress_setup \<Rightarrow> string \<Rightarrow> string \<Rightarrow> ('w, unit) prog" where
  "performDirectSearchReplace env this search' replace' =
     (let cli = raw_cli this
      in try_catch
           (bind (exec env (MysqlExec cli ShowTables))
              (\<lambda>tablesOutput. table_loop env cli search' replace' (table_lines tablesOutput)))
           (\<lambda>error. warn (''Direct MySQL search-replace failed: '' @ error)))"

text \<open>
  One replacement: the \<open>wp search-replace\<close> command with the three flags, and the raw
  strategy when the command fails. \<open>performSearchReplace\<close> has this block three times, for
  the URL, for the domain and in the loop over the additional replacements.
\<close>

definition wp_search_replace :: "wordpress_setup \<Rightarrow> string \<Rightarrow> string \<Rightarrow> command" where
  "wp_search_replace this search' replace' =
     (let sr = sql_searchReplace (sql (config this));
          dryRunFlag = (if sr_dryRun sr then ''--dry-run'' else []);
          caseSensitiveFlag = (if sr_caseSensitive sr then ''--case-sensitive'' else []);
          regexFlag = (if sr_regex sr then ''--regex'' else [])
      in WpSearchReplace search' replace' (websitePath this) dryRunFlag caseSensitiveFlag regexFlag)"

definition replace_with_fallback ::
    "'w env \<Rightarrow> wordpress_setup \<Rightarrow> string \<Rightarrow> string \<Rightarrow> ('w, unit) prog" where
  "replace_with_fallback env this search' replace' =
     try_catch (bind (exec env (wp_search_replace this search' replace')) (\<lambda>_. ok ()))
       (\<lambda>wpError. performDirectSearchReplace env this search' replace')"

definition main_url_replacement :: "'w env \<Rightarrow> wordpress_setup \<Rightarrow> ('w, unit) prog" where
  "main_url_replacement env this =
     (let oldUrl = (if truthy (sql_oldUrl (sql (config this)))
                    then sql_oldUrl (sql (config this)) else ''http://example.com'');
          newUrl = ''http://'' @ websiteName this @ valet_domain (config this)
      in if oldUrl \<noteq> newUrl then replace_with_fallback env this oldUrl newUrl else ok ())"

definition domain_replacement :: "'w env \<Rightarrow> wordpress_setup \<Rightarrow> ('w, unit) prog" where
  "domain_replacement env this =
     (let oldDomain = (if truthy (sql_oldDomain (sql (config this)))
                       then sql_oldDomain (sql (config this)) else ''example.com'');
          newDomain = websiteName this @ valet_domain (config this)
      in if oldDomain \<noteq> newDomain then replace_with_fallback env this oldDomain newDomain else ok ())"

primrec additional_replacements :: "'w env \<Rightarrow> wordpress_setup \<Rightarrow> replacement list \<Rightarrow> ('w, unit) prog" where
  "additional_replacements env this [] = ok ()"
| "additional_replacements env this (r # rs) =
     bind (replace_with_fallback env this (search r) (replace r))
       (\<lambda>_. additional_replacements env this rs)"

definition performSearchReplace :: "'w env \<Rightarrow> wordpress_setup \<Rightarrow> ('w, unit) prog" where
  "performSearchReplace env this =
     (if advanced_skipSearchReplace (config this) then ok ()
      else if \<not> sr_enabled (sql_searchReplace (sql (config this))) then ok ()
      else bind (main_url_replacement env this)
             (\<lambda>_. bind (domain_replacement env this)
             (\<lambda>_. additional_replacements env this
                    (sr_additionalReplacements (sql_searchReplace (sql (config this)))))))"

section \<open>Admin identity reconciliation\<close>

text \<open>
  \<open>parseInt(s)\<close> without a radix: leading white space is skipped, a sign is read, a
  \<open>0x\<close> prefix selects base sixteen, and the longest run of digits is the value; \<open>None\<close>
  is \<open>NaN\<close>. The value is the mathematical integer, which has the sign of the number
  JavaScript computes.
\<close>

definition digit_table :: "(char \<times> nat) list" where
  "digit_table =
     [(CHR ''0'', 0), (CHR ''1'', 1), (CHR ''2'', 2), (CHR ''3'', 3), (CHR ''4'', 4),
      (CHR ''5'', 5), (CHR ''6'', 6), (CHR ''7'', 7), (CHR ''8'', 8), (CHR ''9'', 9),
      (CHR ''a'', 10), (CHR ''b'', 11), (CHR ''c'', 12), (CHR ''d'', 13), (CHR ''e'', 14), (CHR ''f'', 15),
      (CHR ''A'', 10), (CHR ''B'', 11), (CHR ''C'', 12), (CHR ''D'', 13), (CHR ''E'', 14), (CHR ''F'', 15)]"

definition digit_of :: "nat \<Rightarrow> char \<Rightarrow> nat option" where
  "digit_of radix c =
     (case map_of digit_table c of
        None \<Rightarrow> None
      | Some d \<Rightarrow> if d < radix then Some d else None)"

definition digits_value :: "nat \<Rightarrow> string \<Rightarrow> nat" where
  "digits_value radix ds =
     foldl (\<lambda>acc c. acc * radix + (case digit_of radix c of None \<Rightarrow> 0 | Some d \<Rightarrow> d)) 0 ds"

definition parseInt :: "string \<Rightarrow> int option" where
  "parseInt s =
     (let s1 = dropWhile js_space s;
          negative = prefix ''-'' s1;
          s2 = (if prefix ''-'' s1 \<or> prefix ''+'' s1 then drop 1 s1 else s1);
          hex = (prefix ''0x'' s2 \<or> prefix ''0X'' s2);
          radix = (if hex then 16 else 10);
          s3 = (if hex then drop 2 s2 else s2);
          ds = takeWhile (\<lambda>c. digit_of radix c \<noteq> None) s3
      in if ds = [] then None
         else Some (if negative then - int (digits_value radix ds) else int (digits_value radix ds)))"

text \<open>\<open>output.split('\n').filter(line => line.trim() && !line.includes(header))\<close>\<close>

definition data_lines :: "string \<Rightarrow> string \<Rightarrow> string list" where
  "data_lines header output =
     filter (\<lambda>line. truthy (js_trim line) \<and> \<not> js_includes line header) (js_split_nl output)"

definition admin_cli :: "wordpress_setup \<Rightarrow> mysql_cli" where
  "admin_cli this =
     mysql_command_line this (js_or (dbUser this) (db_user (database (config this))))
       (js_or (dbPassword this) (db_password (database (config this))))"

text \<open>What \<open>checkAdminUserExists\<close> makes of the output of the count query.\<close>

definition count_positive :: "string \<Rightarrow> bool" where
  "count_positive output =
     (case data_lines ''count'' output of
        [] \<Rightarrow> False
      | line # _ \<Rightarrow> (case parseInt (js_trim line) of None \<Rightarrow> False | Some count \<Rightarrow> count > 0))"

definition checkAdminUserExists :: "'w env \<Rightarrow> wordpress_setup \<Rightarrow> ('w, bool) prog" where
  "checkAdminUserExists env this =
     try_catch
       (bind (exec env (MysqlExec (admin_cli this)
                (CountUsers (db_prefix (database (config this))) (wp_adminUser (config this)))))
          (\<lambda>output. ok (count_positive output)))
       (\<lambda>error. ok False)"

definition hashWordPressPassword :: "'w env \<Rightarrow> wordpress_setup \<Rightarrow> string \<Rightarrow> ('w, string) prog" where
  "hashWordPressPassword env this password =
     try_catch
       (bind (exec env (WpHashPassword password (websitePath this)))
          (\<lambda>output. ok (js_trim output)))
       (\<lambda>error. ok (''$P$B'' @ md5hex env password))"

definition updateAdminUserPassword :: "'w env \<Rightarrow> wordpress_setup \<Rightarrow> ('w, unit) prog" where
  "updateAdminUserPassword env this =
     bind (hashWordPressPassword env this (adminPassword this))
       (\<lambda>hashedPassword.
          bind (exec env (MysqlExec (admin_cli this)
                  (UpdateUserPass (db_prefix (database (config this))) hashedPassword
                     (wp_adminUser (config this)))))
            (\<lambda>_. ok ()))"

text \<open>\<open>new Date().toISOString().slice(0, 19).replace('T', ' ')\<close>\<close>

definition timestamp :: "'w env \<Rightarrow> 'w \<Rightarrow> string" where
  "timestamp env w = js_replace_str ''T'' '' '' (take 19 (isoNow env w))"

definition createAdminUser :: "'w env \<Rightarrow> wordpress_setup \<Rightarrow> ('w, unit) prog" where
  "createAdminUser env this =
     (let pre = db_prefix (database (config this));
          login = wp_adminUser (config this) in
      bind (hashWordPressPassword env this (adminPassword this))
        (\<lambda>hashedPassword st.
           bind (exec env (MysqlExec (admin_cli this)
                   (InsertUser pre login hashedPassword (adminEmail this) (timestamp env (world st)))))
           (\<lambda>_. bind (exec env (MysqlExec (admin_cli this) (SelectUserId pre login)))
           (\<lambda>userIdOutput.
              (case data_lines ''ID'' userIdOutput of
                 [] \<Rightarrow> ok ()
               | line # _ \<Rightarrow>
                   if truthy (js_trim line)
                   then bind (exec env (MysqlExec (admin_cli this) (InsertCapabilities pre (js_trim line))))
                          (\<lambda>_. ok ())
                   else ok ()))) st))"

definition manageAdminUser :: "'w env \<Rightarrow> wordpress_setup \<Rightarrow> ('w, unit) prog" where
  "manageAdminUser env this =
     (if \<not> source_set this then ok ()
      else bind (checkAdminUserExists env this)
             (\<lambda>adminUserExists.
                if adminUserExists then updateAdminUserPassword env this
                else createAdminUser env this))"

section \<open>Observations on a run\<close>

text \<open>A stage that returns normally from every state.\<close>

definition never_raises :: "('w, 'a) prog \<Rightarrow> bool" where
  "never_raises m = (\<forall>st. \<not> isl (fst (m st)))"

text \<open>The statements sent over the connection, the commands run and the time slept.\<close>

fun executed :: "event list \<Rightarrow> statement list" where
  "executed [] = []"
| "executed (Execute stmt # evs) = stmt # executed evs"
| "executed (ev # evs) = executed evs"

fun commands :: "event list \<Rightarrow> command list" where
  "commands [] = []"
| "commands (Exec cmd # evs) = cmd # commands evs"
| "commands (ev # evs) = commands evs"

fun delay_total :: "event list \<Rightarrow> nat" where
  "delay_total [] = 0"
| "delay_total (Sleep ms # evs) = ms + delay_total evs"
| "delay_total (ev # evs) = delay_total evs"

text \<open>The readiness probe in a given world: whether it throws, and the world it leaves.\<close>

definition probe_fails :: "'w env \<Rightarrow> wordpress_setup \<Rightarrow> 'w \<Rightarrow> bool" where
  "probe_fails env this w = isl (fst (execSync env (Shell (testCommand this)) w))"

definition after_probe :: "'w env \<Rightarrow> wordpress_setup \<Rightarrow> 'w \<Rightarrow> 'w" where
  "after_probe env this w = snd (execSync env (Shell (testCommand this)) w)"

text \<open>\<open>Math.floor(Math.random() * k)\<close> lies below \<open>k\<close>, since \<open>Math.random()\<close> lies in \<open>[0, 1)\<close>.\<close>

definition random_in_range :: "'w env \<Rightarrow> bool" where
  "random_in_range env = (\<forall>k w. 0 < k \<longrightarrow> fst (randomBelow env k w) < k)"

text \<open>A key value of the fallback: 64 characters of the alphabet.\<close>

definition salt_value :: "string \<Rightarrow> bool" where
  "salt_value v = (length v = 64 \<and> set v \<subseteq> set salt_chars)"

text \<open>
  The ways the count query of \<open>checkAdminUserExists\<close> can fail: the command throws, its
  output has no data line, or the first data line is not a number.
\<close>

fun count_query_failed :: "string + string \<Rightarrow> bool" where
  "count_query_failed (Inl error) = True"
| "count_query_failed (Inr output) =
     (case data_lines ''count'' output of
        [] \<Rightarrow> True
      | line # _ \<Rightarrow> parseInt (js_trim line) = None)"

text \<open>The state a command leaves, and stages that only add to the trace.\<close>

definition after_exec :: "'w env \<Rightarrow> command \<Rightarrow> 'w state \<Rightarrow> 'w state" where
  "after_exec env cmd st = snd (exec env cmd st)"

definition grows :: "('w, 'a) prog \<Rightarrow> bool" where
  "grows m = (\<forall>st. prefix (trace st) (trace (snd (m st))))"

text \<open>The same instance with other search-replace options.\<close>

definition with_options :: "bool \<Rightarrow> bool \<Rightarrow> bool \<Rightarrow> wordpress_setup \<Rightarrow> wordpress_setup" where
  "with_options dry cs rx this =
     this\<lparr>config := (config this)\<lparr>sql := (sql (config this))\<lparr>sql_searchReplace :=
       (sql_searchReplace (sql (config this)))\<lparr>sr_dryRun := dry, sr_caseSensitive := cs, sr_regex := rx\<rparr>\<rparr>\<rparr>\<rparr>"

section \<open>A reference database for the admin stage\<close>

text \<open>
  The users and usermeta tables as the statements of the admin stage see them, and what the
  \<open>mysql\<close> client prints in batch mode: a header line and one line per row, nothing for an
  empty result. Logins are compared by equality and values are taken as written (the
  statements quote them without escaping). A statement on a table with another prefix fails.
\<close>

record user_row =
  user_ID :: nat
  user_login :: string
  user_pass :: string
  user_email :: string
  user_registered :: string

record meta_row =
  meta_user_id :: nat
  meta_key :: string
  meta_value :: string

record wp_database =
  table_prefix :: string
  users :: "user_row list"
  usermeta :: "meta_row list"

definition rows_with_login :: "wp_database \<Rightarrow> string \<Rightarrow> user_row list" where
  "rows_with_login d login = filter (\<lambda>u. user_login u = login) (users d)"

definition next_id :: "wp_database \<Rightarrow> nat" where
  "next_id d = Suc (foldr max (map user_ID (users d)) 0)"

definition capabilities_value :: string where
  "capabilities_value = ''a:1:{s:13:'' @ [dq] @ ''administrator'' @ [dq] @ '';b:1;}''"

definition no_such_table :: string where
  "no_such_table = ''ERROR 1146 (42S02): Table does not exist''"

definition count_output :: "nat \<Rightarrow> string" where
  "count_output k = ''count'' @ [nl] @ js_nat k @ [nl]"

definition id_output :: "user_row list \<Rightarrow> string" where
  "id_output rows = ''ID'' @ [nl] @ concat (map (\<lambda>u. js_nat (user_ID u) @ [nl]) rows)"

fun mysql_run :: "statement \<Rightarrow> wp_database \<Rightarrow> (string + string) \<times> wp_database" where
  "mysql_run (CountUsers pre login) d =
     (if pre \<noteq> table_prefix d then (Inl no_such_table, d)
      else (Inr (count_output (length (rows_with_login d login))), d))"
| "mysql_run (UpdateUserPass pre hash login) d =
     (if pre \<noteq> table_prefix d then (Inl no_such_table, d)
      else (Inr [], d\<lparr>users := map (\<lambda>u. if user_login u = login then u\<lparr>user_pass := hash\<rparr> else u) (users d)\<rparr>))"
| "mysql_run (InsertUser pre login hash email now) d =
     (if pre \<noteq> table_prefix d then (Inl no_such_table, d)
      else (Inr [], d\<lparr>users := users d @
              [\<lparr>user_ID = next_id d, user_login = login, user_pass = hash, user_email = email,
                user_registered = now\<rparr>]\<rparr>))"
| "mysql_run (SelectUserId pre login) d =
     (if pre \<noteq> table_prefix d then (Inl no_such_table, d)
      else if rows_with_login d login = [] then (Inr [], d)
      else (Inr (id_output (rows_with_login d login)), d))"
| "mysql_run (InsertCapabilities pre userId) d =
     (if pre \<noteq> table_prefix d then (Inl no_such_table, d)
      else (case parseInt userId of
              None \<Rightarrow> (Inl ''ERROR 1064 (42000): SQL syntax'', d)
            | Some n \<Rightarrow>
                (Inr [], d\<lparr>usermeta := usermeta d @
                   [\<lparr>meta_user_id = nat n, meta_key = pre @ ''capabilities'', meta_value = capabilities_value\<rparr>,
                    \<lparr>meta_user_id = nat n, meta_key = pre @ ''user_level'', meta_value = ''10''\<rparr>]\<rparr>)))"
| "mysql_run stmt d = (Inr [], d)"

text \<open>
  The statement is the double-quoted \<open>-e\<close> argument of a command line, and \<open>execSync\<close> hands
  the command line to \<open>/bin/sh\<close>: the shell expands the parameters it finds in the argument
  before \<open>mysql\<close> reads it. A password hash starts with \<open>$P$\<close>, so in its place \<open>mysql\<close> reads
  what the shell leaves of it, \<open>sh hash\<close>. The other values of the admin stage (prefix,
  login, email, timestamp, identifier) are taken to hold no character the shell expands.
\<close>

fun through_shell :: "(string \<Rightarrow> string) \<Rightarrow> statement \<Rightarrow> statement" where
  "through_shell sh (UpdateUserPass pre hash login) = UpdateUserPass pre (sh hash) login"
| "through_shell sh (InsertUser pre login hash email now) = InsertUser pre login (sh hash) email now"
| "through_shell sh stmt = stmt"

text \<open>
  The world of the admin stage: the database and the number of commands run so far. The
  command number \<open>n\<close> throws when \<open>fails n\<close>; otherwise a \<open>mysql\<close> command runs the
  statement the shell passes on, and \<open>wp eval\<close> prints \<open>wp_hash password\<close>.
\<close>

record db_world =
  db :: wp_database
  step :: nat

definition db_exec ::
    "(nat \<Rightarrow> bool) \<Rightarrow> (string \<Rightarrow> string) \<Rightarrow> (string \<Rightarrow> string) \<Rightarrow> command \<Rightarrow> db_world \<Rightarrow>
       (string + string) \<times> db_world" where
  "db_exec fails wp_hash sh cmd w =
     (if fails (step w) then (Inl ''Command failed'', w\<lparr>step := Suc (step w)\<rparr>)
      else (case cmd of
              MysqlExec cli stmt \<Rightarrow>
                (case mysql_run (through_shell sh stmt) (db w) of
                   (r, d') \<Rightarrow> (r, \<lparr>db = d', step = Suc (step w)\<rparr>))
            | WpHashPassword password path \<Rightarrow> (Inr (wp_hash password), w\<lparr>step := Suc (step w)\<rparr>)
            | _ \<Rightarrow> (Inr [], w\<lparr>step := Suc (step w)\<rparr>)))"

definition db_env ::
    "(nat \<Rightarrow> bool) \<Rightarrow> (string \<Rightarrow> string) \<Rightarrow> (string \<Rightarrow> string) \<Rightarrow> (string \<Rightarrow> string) \<Rightarrow> db_world env" where
  "db_env fails wp_hash md5 sh =
     \<lparr>execSync = db_exec fails wp_hash sh,
      createConnection = (\<lambda>h u p n w. (Inr (), w)),
      execute = (\<lambda>stmt w. (Inr [], w)),
      endConnection = (\<lambda>w. (Inr (), w)),
      axiosGet = (\<lambda>url w. (Inl ''offline'', w)),
      pathExists = (\<lambda>p w. True),
      pathResolve = (\<lambda>p. p),
      randomBelow = (\<lambda>k w. (0, w)),
      isoNow = (\<lambda>w. ''2024-01-01T00:00:00.000Z''),
      md5hex = md5\<rparr>"



section \<open>Example configuration and environments\<close>

text \<open>The values \<open>createDefaultConfig\<close> writes for the fields modelled here.\<close>

definition defaultConfig :: config where
  "defaultConfig =
     \<lparr>database =
        \<lparr>db_host = ''localhost'', db_user = ''root'', db_password = [], db_port = 3306,
         db_charset = ''utf8mb4'', db_collate = ''utf8mb4_unicode_ci'', db_prefix = ''wp_'',
         db_createUser = False, db_userPrefix = ''wp_'',
         db_grantPrivileges = [''SELECT'', ''INSERT'', ''UPDATE'', ''DELETE'', ''CREATE'', ''DROP'', ''INDEX'', ''ALTER''],
         db_docker =
           \<lparr>docker_enabled = False, docker_containerName = ''mysql'', docker_image = ''mysql:8.0'',
            docker_port = 3306, docker_rootPassword = [], docker_dataVolume = ''mysql_data'',
            docker_network = ''bridge''\<rparr>\<rparr>,
      wp_adminUser = ''admin'', wp_memoryLimit = ''256M'',
      sql =
        \<lparr>sql_source = None, sql_oldUrl = ''http://example.com'', sql_oldDomain = ''example.com'',
         sql_searchReplace =
           \<lparr>sr_enabled = True, sr_caseSensitive = False, sr_regex = False, sr_dryRun = False,
            sr_additionalReplacements = []\<rparr>,
         sql_optimizeAfterImport = True, sql_repairAfterImport = True\<rparr>,
      development =
        \<lparr>dev_enableDebug = True, dev_debugLog = True, dev_wpDebugLog = True,
         dev_wpDebugDisplay = False, dev_scriptDebug = True, dev_saveQueries = True\<rparr>,
      security_disableFileEditing = True, valet_domain = ''.test'', custom_wpConfig = [],
      advanced_skipDatabaseCreation = False, advanced_skipSearchReplace = False,
      advanced_verbose = False\<rparr>"

definition site_of :: "config \<Rightarrow> wordpress_setup" where
  "site_of c =
     \<lparr>config = c, websiteName = ''mysite'', websitePath = ''/srv/mysite'', dbName = ''wp_mysite'',
      dbUser = None, dbPassword = None, adminPassword = ''admin123'',
      adminEmail = ''admin@example.com''\<rparr>"

text \<open>
  An environment whose world counts the commands run: \<open>respond\<close> and \<open>rows\<close> give the
  outcome of a command and of a statement at a given count; the salt service is unreachable.
\<close>

definition scripted ::
    "(command \<Rightarrow> nat \<Rightarrow> string + string) \<Rightarrow> (statement \<Rightarrow> nat \<Rightarrow> string + string list) \<Rightarrow> nat env" where
  "scripted respond rows =
     \<lparr>execSync = (\<lambda>cmd w. (respond cmd w, Suc w)),
      createConnection = (\<lambda>h u p n w. (Inr (), w)),
      execute = (\<lambda>stmt w. (rows stmt w, w)),
      endConnection = (\<lambda>w. (Inr (), w)),
      axiosGet = (\<lambda>url w. (Inl ''ENOTFOUND'', w)),
      pathExists = (\<lambda>p w. True),
      pathResolve = (\<lambda>p. p),
      randomBelow = (\<lambda>k w. (w mod k, w)),
      isoNow = (\<lambda>w. ''2024-01-01T00:00:00.000Z''),
      md5hex = (\<lambda>p. replicate 32 (CHR ''0''))\<rparr>"

definition start :: "'w \<Rightarrow> 'w state" where
  "start w = \<lparr>world = w, trace = []\<rparr>"

text \<open>Every command succeeds; \<open>SHOW TABLES\<close> lists one table under its header.\<close>

definition tables_output :: string where
  "tables_output = ''Tables_in_wp_mysite'' @ [nl] @ ''wp_options'' @ [nl]"

definition respond_ok :: "command \<Rightarrow> nat \<Rightarrow> string + string" where
  "respond_ok cmd w =
     (case cmd of
        MysqlExec cli ShowTables \<Rightarrow> Inr tables_output
      | _ \<Rightarrow> Inr [])"

definition all_succeed :: "nat env" where
  "all_succeed = scripted respond_ok (\<lambda>stmt w. Inr [''row''])"

text \<open>Every command and every statement fails.\<close>

definition all_fail :: "nat env" where
  "all_fail = scripted (\<lambda>cmd w. Inl ''Command failed'') (\<lambda>stmt w. Inl ''ER_ACCESS_DENIED'')"

text \<open>The \<open>wp\<close> tool is missing; the \<open>mysql\<close> client works.\<close>

definition respond_no_wp :: "command \<Rightarrow> nat \<Rightarrow> string + string" where
  "respond_no_wp cmd w =
     (case cmd of
        WpSearchReplace s r p d c x \<Rightarrow> Inl ''wp: command not found''
      | WpHashPassword pw p \<Rightarrow> Inl ''wp: command not found''
      | _ \<Rightarrow> respond_ok cmd w)"

definition no_wp :: "nat env" where
  "no_wp = scripted respond_no_wp (\<lambda>stmt w. Inr [''row''])"

text \<open>A dump is configured.\<close>

definition migrate_config :: config where
  "migrate_config = defaultConfig\<lparr>sql := (sql defaultConfig)\<lparr>sql_source := Some ''dump.sql''\<rparr>\<rparr>"

text \<open>A dump and one additional replacement whose search and replace values are equal.\<close>

definition noop_rule_config :: config where
  "noop_rule_config =
     defaultConfig\<lparr>sql := (sql defaultConfig)\<lparr>sql_source := Some ''dump.sql'',
       sql_searchReplace := (sql_searchReplace (sql defaultConfig))\<lparr>sr_additionalReplacements :=
         [\<lparr>search = ''staging'', replace = ''staging''\<rparr>]\<rparr>\<rparr>\<rparr>"

text \<open>A dump and the dry-run option.\<close>

definition dry_run_config :: config where
  "dry_run_config =
     defaultConfig\<lparr>sql := (sql defaultConfig)\<lparr>sql_source := Some ''dump.sql'',
       sql_searchReplace := (sql_searchReplace (sql defaultConfig))\<lparr>sr_dryRun := True\<rparr>\<rparr>\<rparr>"

text \<open>Dedicated-user mode with a root password, and a dump.\<close>

definition dedicated_user_config :: config where
  "dedicated_user_config =
     defaultConfig\<lparr>database := (database defaultConfig)\<lparr>db_password := ''rootpw'', db_createUser := True\<rparr>,
       sql := (sql defaultConfig)\<lparr>sql_source := Some ''dump.sql''\<rparr>\<rparr>"

text \<open>The events of \<open>k\<close> failed rounds of the wait loop: a probe, then two seconds of sleep.\<close>

definition round_events :: "wordpress_setup \<Rightarrow> nat \<Rightarrow> event list" where
  "round_events this k = concat (replicate k [Exec (Shell (testCommand this)), Sleep 2000])"

text \<open>The server accepts connections from the fourth probe on.\<close>

definition flaky :: "nat env" where
  "flaky = scripted (\<lambda>cmd w. if w < 3 then Inl ''Can not connect'' else Inr ''1'') (\<lambda>stmt w. Inr [])"

text \<open>The count query prints something that is not a number.\<close>

definition garbled_output :: string where
  "garbled_output = ''count'' @ [nl] @ ''NULL'' @ [nl]"

definition garbled :: "nat env" where
  "garbled = scripted (\<lambda>cmd w. Inr garbled_output) (\<lambda>stmt w. Inr [])"

text \<open>A stage that sends no statement over the connection.\<close>

definition quiet :: "('w, 'a) prog \<Rightarrow> bool" where
  "quiet m = (\<forall>st. \<exists>evs. trace (snd (m st)) = trace st @ evs \<and> executed evs = [])"

text \<open>The three statements provisioning starts with, and the events a stage added.\<close>

definition provisioning_statements :: "wordpress_setup \<Rightarrow> statement list" where
  "provisioning_statements this =
     [DropDatabaseIfExists (dbName this),
      CreateDatabase (dbName this) (db_charset (database (config this))) (db_collate (database (config this))),
      ShowDatabasesLike (dbName this)]"

definition new_events :: "'w state \<Rightarrow> 'w state \<Rightarrow> event list" where
  "new_events st st' = drop (length (trace st)) (trace st')"

text \<open>The end of \<open>createDatabase\<close>, after the database was seen: the dedicated user when
  configured, then the end of the connection.\<close>

definition finish_provisioning :: "'w env \<Rightarrow> wordpress_setup \<Rightarrow> ('w, wordpress_setup) prog" where
  "finish_provisioning env this =
     bind (if db_createUser (database (config this)) then create_dedicated_user env this else ok this)
       (\<lambda>this'. bind (call EndConnection (endConnection env)) (\<lambda>_. ok this'))"

text \<open>The server accepts every statement, but \<open>SHOW DATABASES LIKE\<close> returns no row.\<close>

definition empty_requery :: "nat env" where
  "empty_requery =
     scripted respond_ok
       (\<lambda>stmt w. case stmt of ShowDatabasesLike name \<Rightarrow> Inr [] | _ \<Rightarrow> Inr [''OK''])"

text \<open>
  One custom line and no other additive setting; a configuration file that holds the marker
  only; the file after one run of the patcher and after two.
\<close>

definition custom_lines_config :: config where
  "custom_lines_config =
     defaultConfig\<lparr>development := (development defaultConfig)\<lparr>dev_enableDebug := False\<rparr>,
       security_disableFileEditing := False, wp_memoryLimit := [],
       custom_wpConfig := [''define( 'WP_CACHE', true );'']\<rparr>"

definition sample_salts :: string where
  "sample_salts = ''define('AUTH_KEY', 'k');''"

definition sample_wp_config :: string where
  "sample_wp_config = ''<?php'' @ [nl] @ stop_editing @ [nl]"

definition patched_once :: string where
  "patched_once =
     ''<?php'' @ [nl] @ ''define('AUTH_KEY', 'k');'' @ [nl, nl, nl] @
     ''define( 'WP_CACHE', true );'' @ [nl, nl, nl] @
     stop_editing @ [nl, nl] @ wp_settings_require"

definition patched_twice :: string where
  "patched_twice =
     ''<?php'' @ [nl] @ ''define('AUTH_KEY', 'k');'' @ [nl, nl, nl] @
     ''define( 'WP_CACHE', true );'' @ [nl, nl, nl, nl] @
     ''define( 'WP_CACHE', true );'' @ [nl, nl, nl] @
     stop_editing @ [nl, nl] @ wp_settings_require"



definition users_prefix :: "wordpress_setup \<Rightarrow> string" where
  "users_prefix this = db_prefix (database (config this))"







section \<open>Verified properties\<close>

lemmas prog_defs = bind_def ok_def throw_def try_catch_def call_def exec_def warn_def sleep_def
  emit_def conn_execute_def

subsection \<open>Stages that cannot raise\<close>

lemma never_raises_ok: "never_raises (ok x)"
  by (simp add: never_raises_def ok_def)

lemma never_raises_warn: "never_raises (warn msg)"
  by (simp add: never_raises_def warn_def)

lemma never_raises_bind:
  assumes "never_raises m" and "\<And>x. never_raises (f x)"
  shows "never_raises (bind m f)"
  unfolding never_raises_def
proof
  fix st
  obtain r st' where m: "m st = (r, st')" by (cases "m st")
  with assms(1) obtain x where r: "r = Inr x"
    by (cases r) (auto simp: never_raises_def dest: spec [of _ st])
  from assms(2) [of x] have "\<not> isl (fst (f x st'))" by (simp add: never_raises_def)
  with m r show "\<not> isl (fst (bind m f st))" by (simp add: bind_def)
qed

lemma never_raises_try_catch:
  assumes "\<And>e. never_raises (h e)"
  shows "never_raises (try_catch m h)"
  unfolding never_raises_def
proof
  fix st
  obtain r st' where m: "m st = (r, st')" by (cases "m st")
  show "\<not> isl (fst (try_catch m h st))"
  proof (cases r)
    case (Inl e)
    from assms [of e] have "\<not> isl (fst (h e st'))" by (simp add: never_raises_def)
    with m Inl show ?thesis by (simp add: try_catch_def)
  next
    case (Inr x)
    with m show ?thesis by (simp add: try_catch_def)
  qed
qed

lemma never_raises_unit: "never_raises m \<Longrightarrow> fst (m st) = Inr ()"
  by (cases "fst (m st)") (auto simp: never_raises_def dest: spec [of _ st])

lemma column_loop_never_raises: "never_raises (column_loop env cli t s r cols)"
  by (induction cols)
     (auto intro!: never_raises_ok never_raises_bind never_raises_try_catch)

lemma table_loop_never_raises: "never_raises (table_loop env cli s r tables)"
  by (induction tables)
     (auto intro!: never_raises_ok never_raises_bind never_raises_try_catch column_loop_never_raises)

lemma performDirectSearchReplace_never_raises:
  "never_raises (performDirectSearchReplace env this s r)"
  by (simp add: performDirectSearchReplace_def Let_def never_raises_try_catch never_raises_warn)

lemma replace_with_fallback_never_raises:
  "never_raises (replace_with_fallback env this s r)"
  by (simp add: replace_with_fallback_def never_raises_try_catch
        performDirectSearchReplace_never_raises)

lemma additional_replacements_never_raises:
  "never_raises (additional_replacements env this rs)"
  by (induction rs)
     (auto intro!: never_raises_ok never_raises_bind replace_with_fallback_never_raises)

lemma performSearchReplace_never_raises: "never_raises (performSearchReplace env this)"
  by (auto simp: performSearchReplace_def main_url_replacement_def domain_replacement_def Let_def
           intro!: never_raises_ok never_raises_bind replace_with_fallback_never_raises
                   additional_replacements_never_raises)

text \<open>
  Claim C10. The raw fallback never propagates an error: whatever the commands do,
  \<open>performDirectSearchReplace\<close> returns normally, so one replacement with its fallback and
  the whole search-replace stage return normally too, also when every command fails.
\<close>

theorem search_replace_never_raises:
  "fst (performSearchReplace env this st) = Inr ()
   \<and> fst (replace_with_fallback env this s r st) = Inr ()
   \<and> fst (performDirectSearchReplace env this s r st) = Inr ()"
  by (simp add: never_raises_unit performSearchReplace_never_raises
        replace_with_fallback_never_raises performDirectSearchReplace_never_raises)

text \<open>
  With every command failing, the stage still completes: for the URL and for the domain
  the \<open>wp\<close> command and \<open>SHOW TABLES\<close> fail, a warning is printed and no update is issued.
\<close>

theorem search_replace_never_raises_witness:
  "fst (performSearchReplace all_fail (site_of migrate_config) (start 0)) = Inr ()
   \<and> trace (snd (performSearchReplace all_fail (site_of migrate_config) (start 0))) =
       [Exec (WpSearchReplace ''http://example.com'' ''http://mysite.test'' ''/srv/mysite'' [] [] []),
        Exec (MysqlExec \<lparr>cli_container = None, cli_host = ''localhost'', cli_user = ''root'',
                cli_passwordParam = [], cli_port = ''3306'', cli_database = ''wp_mysite''\<rparr> ShowTables),
        Warn ''Direct MySQL search-replace failed: Command failed'',
        Exec (WpSearchReplace ''example.com'' ''mysite.test'' ''/srv/mysite'' [] [] []),
        Exec (MysqlExec \<lparr>cli_container = None, cli_host = ''localhost'', cli_user = ''root'',
                cli_passwordParam = [], cli_port = ''3306'', cli_database = ''wp_mysite''\<rparr> ShowTables),
        Warn ''Direct MySQL search-replace failed: Command failed'']"
proof -
  have port: "js_nat 3306 = ''3306''"
    by (simp add: js_nat.simps digit_char_def)
  show ?thesis
    using search_replace_never_raises [of all_fail "site_of migrate_config" "start 0"]
    by (simp add: performSearchReplace_def main_url_replacement_def domain_replacement_def
          replace_with_fallback_def wp_search_replace_def performDirectSearchReplace_def
          raw_cli_def mysql_command_line_def passwordParam_def js_or_def port
          migrate_config_def defaultConfig_def site_of_def all_fail_def scripted_def start_def
          truthy_def prog_defs Let_def)
qed

subsection \<open>Traces of the raw strategy\<close>

lemma grows_ok: "grows (ok x)"
  by (simp add: grows_def ok_def)

lemma grows_exec: "grows (exec env cmd)"
  by (simp add: grows_def exec_def call_def split: prod.splits)

lemma grows_warn: "grows (warn msg)"
  by (simp add: grows_def warn_def emit_def)

lemma grows_bind:
  assumes "grows m" and "\<And>x. grows (f x)"
  shows "grows (bind m f)"
  unfolding grows_def
proof
  fix st
  obtain r st' where m: "m st = (r, st')" by (cases "m st")
  from assms(1) m have p: "prefix (trace st) (trace st')"
    by (auto simp: grows_def dest: spec [of _ st])
  show "prefix (trace st) (trace (snd (bind m f st)))"
  proof (cases r)
    case (Inl e)
    with m p show ?thesis by (simp add: bind_def)
  next
    case (Inr x)
    from assms(2) [of x] have "prefix (trace st') (trace (snd (f x st')))"
      by (simp add: grows_def)
    with m p Inr show ?thesis by (auto simp: bind_def intro: prefix_order.trans)
  qed
qed

lemma grows_try_catch:
  assumes "grows m" and "\<And>e. grows (h e)"
  shows "grows (try_catch m h)"
  unfolding grows_def
proof
  fix st
  obtain r st' where m: "m st = (r, st')" by (cases "m st")
  from assms(1) m have p: "prefix (trace st) (trace st')"
    by (auto simp: grows_def dest: spec [of _ st])
  show "prefix (trace st) (trace (snd (try_catch m h st)))"
  proof (cases r)
    case (Inr x)
    with m p show ?thesis by (simp add: try_catch_def)
  next
    case (Inl e)
    from assms(2) [of e] have "prefix (trace st') (trace (snd (h e st')))"
      by (simp add: grows_def)
    with m p Inl show ?thesis by (auto simp: try_catch_def intro: prefix_order.trans)
  qed
qed

lemma grows_mono: "grows m \<Longrightarrow> ev \<in> set (trace st) \<Longrightarrow> ev \<in> set (trace (snd (m st)))"
  by (auto simp: grows_def dest!: spec [of _ st] dest: set_mono_prefix)

lemma grows_column_loop: "grows (column_loop env cli t s r cols)"
  by (induction cols) (auto intro!: grows_ok grows_bind grows_try_catch grows_exec)

lemma grows_table_loop: "grows (table_loop env cli s r tables)"
  by (induction tables)
     (auto intro!: grows_ok grows_bind grows_try_catch grows_exec grows_column_loop)

lemma exec_event: "Exec cmd \<in> set (trace (snd (exec env cmd st)))"
  by (simp add: exec_def call_def split: prod.splits)

lemma bind_event_first:
  assumes "\<And>x. grows (f x)" and "ev \<in> set (trace (snd (m st)))"
  shows "ev \<in> set (trace (snd (bind m f st)))"
proof -
  obtain r st' where m: "m st = (r, st')" by (cases "m st")
  show ?thesis
  proof (cases r)
    case (Inl e)
    with m assms(2) show ?thesis by (simp add: bind_def)
  next
    case (Inr x)
    with m assms(2) grows_mono [OF assms(1) [of x], of ev st'] show ?thesis
      by (simp add: bind_def)
  qed
qed

lemma bind_event_second:
  assumes "\<And>st. fst (m st) = Inr ()" and "\<And>st. ev \<in> set (trace (snd (f () st)))"
  shows "ev \<in> set (trace (snd (bind m f st)))"
proof -
  obtain r st' where m: "m st = (r, st')" by (cases "m st")
  with assms(1) [of st] have "r = Inr ()" by simp
  with m assms(2) [of st'] show ?thesis by (simp add: bind_def)
qed

lemma try_catch_event:
  assumes "\<And>e. grows (h e)" and "ev \<in> set (trace (snd (m st)))"
  shows "ev \<in> set (trace (snd (try_catch m h st)))"
proof -
  obtain r st' where m: "m st = (r, st')" by (cases "m st")
  show ?thesis
  proof (cases r)
    case (Inr x)
    with m assms(2) show ?thesis by (simp add: try_catch_def)
  next
    case (Inl e)
    with m assms(2) grows_mono [OF assms(1) [of e], of ev st'] show ?thesis
      by (simp add: try_catch_def)
  qed
qed

lemma table_step_returns:
  "fst (try_catch (bind (exec env cmd) (\<lambda>_. ok ())) (\<lambda>error. column_loop env cli t s r cols) st) = Inr ()"
  by (intro never_raises_unit never_raises_try_catch column_loop_never_raises)

lemma table_loop_updates:
  "t \<in> set tables \<Longrightarrow>
   Exec (MysqlExec cli (UpdateReplace t ''option_value'' s r))
     \<in> set (trace (snd (table_loop env cli s r tables st)))"
proof (induction tables arbitrary: st)
  case Nil
  then show ?case by simp
next
  case (Cons a tables)
  show ?case
  proof (cases "t = a")
    case True
    have "Exec (MysqlExec cli (UpdateReplace a ''option_value'' s r))
          \<in> set (trace (snd (try_catch
               (bind (exec env (MysqlExec cli (UpdateReplace a ''option_value'' s r))) (\<lambda>_. ok ()))
               (\<lambda>error. column_loop env cli a s r commonColumns) st)))"
      by (intro try_catch_event grows_column_loop bind_event_first grows_ok exec_event)
    with True show ?thesis
      by (auto intro!: bind_event_first grows_table_loop)
  next
    case False
    with Cons.prems have "t \<in> set tables" by simp
    then show ?thesis
      using Cons.IH table_step_returns
      by (auto intro!: bind_event_second)
  qed
qed

lemma exec_failed:
  "fst (execSync env cmd (world st)) = Inl e \<Longrightarrow> exec env cmd st = (Inl e, after_exec env cmd st)"
  by (cases "execSync env cmd (world st)") (simp add: after_exec_def exec_def call_def)

lemma exec_succeeded:
  "fst (execSync env cmd (world st)) = Inr out \<Longrightarrow> exec env cmd st = (Inr out, after_exec env cmd st)"
  by (cases "execSync env cmd (world st)") (simp add: after_exec_def exec_def call_def)

lemma raw_cli_with_options: "raw_cli (with_options dry cs rx this) = raw_cli this"
  by (simp add: raw_cli_def with_options_def mysql_command_line_def Let_def)

text \<open>
  Claim C9. The raw fallback does not honour the dry-run option. With dry-run enabled the
  \<open>wp\<close> command carries \<open>--dry-run\<close>; when that command fails the replacement continues
  as \<open>performDirectSearchReplace\<close>, which reads none of the three options, and for every
  table that \<open>SHOW TABLES\<close> lists an \<open>UPDATE ... REPLACE\<close> on \<open>option_value\<close> is run.
\<close>

theorem dry_run_not_honoured:
  assumes dry: "sr_dryRun (sql_searchReplace (sql (config this)))"
      and primary: "fst (execSync env (wp_search_replace this s r) (world st)) = Inl e"
  shows "(\<exists>c x. wp_search_replace this s r = WpSearchReplace s r (websitePath this) ''--dry-run'' c x)
       \<and> replace_with_fallback env this s r st =
           performDirectSearchReplace env this s r (after_exec env (wp_search_replace this s r) st)
       \<and> performDirectSearchReplace env (with_options d c x this) s r =
           performDirectSearchReplace env this s r
       \<and> (\<forall>out. fst (execSync env (MysqlExec (raw_cli this) ShowTables)
                         (world (after_exec env (wp_search_replace this s r) st))) = Inr out
            \<longrightarrow> (\<forall>t \<in> set (table_lines out).
                   Exec (MysqlExec (raw_cli this) (UpdateReplace t ''option_value'' s r))
                     \<in> set (trace (snd (replace_with_fallback env this s r st)))))"
proof (intro conjI allI impI ballI)
  show "\<exists>c x. wp_search_replace this s r = WpSearchReplace s r (websitePath this) ''--dry-run'' c x"
    using dry by (simp add: wp_search_replace_def Let_def)
  show fallback: "replace_with_fallback env this s r st =
      performDirectSearchReplace env this s r (after_exec env (wp_search_replace this s r) st)"
    using exec_failed [OF primary]
    by (simp add: replace_with_fallback_def try_catch_def bind_def)
  show "performDirectSearchReplace env (with_options d c x this) s r =
      performDirectSearchReplace env this s r"
    by (simp add: performDirectSearchReplace_def raw_cli_with_options)
  fix out t
  assume shown: "fst (execSync env (MysqlExec (raw_cli this) ShowTables)
                   (world (after_exec env (wp_search_replace this s r) st))) = Inr out"
     and t: "t \<in> set (table_lines out)"
  let ?st1 = "after_exec env (wp_search_replace this s r) st"
  let ?st2 = "after_exec env (MysqlExec (raw_cli this) ShowTables) ?st1"
  have "performDirectSearchReplace env this s r ?st1 =
        try_catch (table_loop env (raw_cli this) s r (table_lines out))
          (\<lambda>error. warn (''Direct MySQL search-replace failed: '' @ error)) ?st2"
    using exec_succeeded [OF shown] table_loop_never_raises [of env "raw_cli this" s r "table_lines out"]
    by (auto simp: performDirectSearchReplace_def Let_def try_catch_def bind_def never_raises_def
             split: prod.splits sum.splits)
  moreover have "Exec (MysqlExec (raw_cli this) (UpdateReplace t ''option_value'' s r))
      \<in> set (trace (snd (try_catch (table_loop env (raw_cli this) s r (table_lines out))
          (\<lambda>error. warn (''Direct MySQL search-replace failed: '' @ error)) ?st2)))"
    by (intro try_catch_event grows_warn table_loop_updates t)
  ultimately show "Exec (MysqlExec (raw_cli this) (UpdateReplace t ''option_value'' s r))
      \<in> set (trace (snd (replace_with_fallback env this s r st)))"
    using fallback by simp
qed


lemma js_nat_3306: "js_nat 3306 = ''3306''"
  by (simp add: js_nat.simps digit_char_def)

lemma table_lines_example:
  "table_lines tables_output = [''wp_options'']"
  by (simp add: table_lines_def tables_output_def js_trim_def truthy_def js_space_def nl_def)

text \<open>
  With the default URL rule, dry-run enabled and the \<open>wp\<close> tool missing, the update of
  \<open>wp_options\<close> is run.
\<close>

theorem dry_run_not_honoured_witness:
  "wp_search_replace (site_of dry_run_config) ''http://example.com'' ''http://mysite.test'' =
     WpSearchReplace ''http://example.com'' ''http://mysite.test'' ''/srv/mysite'' ''--dry-run'' [] []
   \<and> Exec (MysqlExec \<lparr>cli_container = None, cli_host = ''localhost'', cli_user = ''root'',
               cli_passwordParam = [], cli_port = ''3306'', cli_database = ''wp_mysite''\<rparr>
             (UpdateReplace ''wp_options'' ''option_value'' ''http://example.com'' ''http://mysite.test''))
       \<in> set (trace (snd (replace_with_fallback no_wp (site_of dry_run_config)
                ''http://example.com'' ''http://mysite.test'' (start 0))))"
proof -
  let ?site = "site_of dry_run_config"
  let ?s = "''http://example.com''" and ?r = "''http://mysite.test''"
  have dry: "sr_dryRun (sql_searchReplace (sql (config ?site)))"
    by (simp add: site_of_def dry_run_config_def defaultConfig_def)
  have wp: "wp_search_replace ?site ?s ?r =
      WpSearchReplace ?s ?r ''/srv/mysite'' ''--dry-run'' [] []"
    by (simp add: wp_search_replace_def site_of_def dry_run_config_def defaultConfig_def)
  have primary: "fst (execSync no_wp (wp_search_replace ?site ?s ?r) (world (start 0))) =
      Inl ''wp: command not found''"
    by (simp add: wp no_wp_def scripted_def respond_no_wp_def)
  have cli: "raw_cli ?site = \<lparr>cli_container = None, cli_host = ''localhost'', cli_user = ''root'',
               cli_passwordParam = [], cli_port = ''3306'', cli_database = ''wp_mysite''\<rparr>"
    by (simp add: raw_cli_def mysql_command_line_def passwordParam_def js_or_def js_nat_3306
          site_of_def dry_run_config_def defaultConfig_def)
  have shown: "fst (execSync no_wp (MysqlExec (raw_cli ?site) ShowTables) w) =
      Inr tables_output" for w
    by (simp add: no_wp_def scripted_def respond_no_wp_def respond_ok_def)
  from dry_run_not_honoured [OF dry primary]
  have "\<forall>t \<in> set (table_lines tables_output).
          Exec (MysqlExec (raw_cli ?site) (UpdateReplace t ''option_value'' ?s ?r))
            \<in> set (trace (snd (replace_with_fallback no_wp ?site ?s ?r (start 0))))"
    using shown by blast
  then show ?thesis
    using wp by (simp add: table_lines_example cli)
qed

subsection \<open>Credentials and no-op rules\<close>

lemma password_16:
  "generateRandomPassword all_succeed 16 w = (replicate 16 (password_chars ! (w mod 70)), w)"
proof -
  have "random_chars all_succeed password_chars n w = (replicate n (password_chars ! (w mod 70)), w)" for n
    by (induction n) (simp_all add: all_succeed_def scripted_def password_chars_def charAt_def)
  then show ?thesis by (simp add: generateRandomPassword_def)
qed

lemma provisioned:
  "fst (createDatabase all_succeed (site_of dedicated_user_config) (start 0)) =
     Inr ((site_of dedicated_user_config)\<lparr>dbUser := Some ''wp_mysite'',
            dbPassword := Some ''aaaaaaaaaaaaaaaa''\<rparr>)"
proof -
  have r: "replicate 16 (CHR ''a'') = ''aaaaaaaaaaaaaaaa''"
    by (simp add: eval_nat_numeral)
  have pw: "generateRandomPassword all_succeed 16 0 = (''aaaaaaaaaaaaaaaa'', 0)"
    by (simp add: password_16 password_chars_def r)
  have sel: "execute all_succeed = (\<lambda>stmt w. (Inr [''row''], w))"
       "createConnection all_succeed = (\<lambda>h u p n w. (Inr (), w))"
       "endConnection all_succeed = (\<lambda>w. (Inr (), w))"
    by (simp_all add: all_succeed_def scripted_def)
  show ?thesis
    by (simp add: createDatabase_def connect_configured_def create_dedicated_user_def
        dedicated_user_config_def defaultConfig_def pw sel
        site_of_def start_def truthy_def prog_defs Let_def)
qed

text \<open>
  Claim C3. Every stage after provisioning should authenticate with the scoped credential.
  In dedicated-user mode, after a successful \<open>createDatabase\<close>, the admin stages and the
  import pass the generated password, but the raw search-replace strategy passes the
  generated user name together with the root password of the configuration.
\<close>

theorem raw_strategy_uses_root_password:
  "(\<exists>this'. fst (createDatabase all_succeed (site_of dedicated_user_config) (start 0)) = Inr this'
      \<and> dbUser this' = Some ''wp_mysite'' \<and> dbPassword this' = Some ''aaaaaaaaaaaaaaaa''
      \<and> admin_cli this' =
          \<lparr>cli_container = None, cli_host = ''localhost'', cli_user = ''wp_mysite'',
           cli_passwordParam = ''-paaaaaaaaaaaaaaaa'', cli_port = ''3306'', cli_database = ''wp_mysite''\<rparr>
      \<and> commands (trace (snd (importDatabase all_succeed this' (start 0)))) =
          [MysqlImport \<lparr>cli_container = None, cli_host = ''localhost'', cli_user = ''wp_mysite'',
             cli_passwordParam = ''-paaaaaaaaaaaaaaaa'', cli_port = ''3306'', cli_database = ''wp_mysite''\<rparr>
             ''dump.sql'',
           MysqlExec \<lparr>cli_container = None, cli_host = ''localhost'', cli_user = ''wp_mysite'',
             cli_passwordParam = ''-paaaaaaaaaaaaaaaa'', cli_port = ''3306'', cli_database = ''wp_mysite''\<rparr>
             OptimizeTables,
           MysqlExec \<lparr>cli_container = None, cli_host = ''localhost'', cli_user = ''wp_mysite'',
             cli_passwordParam = ''-paaaaaaaaaaaaaaaa'', cli_port = ''3306'', cli_database = ''wp_mysite''\<rparr>
             RepairTables]
      \<and> commands (trace (snd (performDirectSearchReplace all_succeed this'
            ''http://example.com'' ''http://mysite.test'' (start 0)))) =
          [MysqlExec \<lparr>cli_container = None, cli_host = ''localhost'', cli_user = ''wp_mysite'',
             cli_passwordParam = ''-prootpw'', cli_port = ''3306'', cli_database = ''wp_mysite''\<rparr> ShowTables,
           MysqlExec \<lparr>cli_container = None, cli_host = ''localhost'', cli_user = ''wp_mysite'',
             cli_passwordParam = ''-prootpw'', cli_port = ''3306'', cli_database = ''wp_mysite''\<rparr>
             (UpdateReplace ''wp_options'' ''option_value'' ''http://example.com'' ''http://mysite.test'')])"
proof -
  let ?site' = "(site_of dedicated_user_config)\<lparr>dbUser := Some ''wp_mysite'',
            dbPassword := Some ''aaaaaaaaaaaaaaaa''\<rparr>"
  have cli: "raw_cli ?site' = \<lparr>cli_container = None, cli_host = ''localhost'', cli_user = ''wp_mysite'',
             cli_passwordParam = ''-prootpw'', cli_port = ''3306'', cli_database = ''wp_mysite''\<rparr>"
    by (simp add: raw_cli_def mysql_command_line_def passwordParam_def js_or_def js_nat_3306
          truthy_def site_of_def dedicated_user_config_def defaultConfig_def)
  have admin: "admin_cli ?site' = \<lparr>cli_container = None, cli_host = ''localhost'', cli_user = ''wp_mysite'',
           cli_passwordParam = ''-paaaaaaaaaaaaaaaa'', cli_port = ''3306'', cli_database = ''wp_mysite''\<rparr>"
    by (simp add: admin_cli_def mysql_command_line_def passwordParam_def js_or_def js_nat_3306
          truthy_def site_of_def dedicated_user_config_def defaultConfig_def)
  have run: "commands (trace (snd (performDirectSearchReplace all_succeed ?site'
            ''http://example.com'' ''http://mysite.test'' (start 0)))) =
     [MysqlExec (raw_cli ?site') ShowTables,
      MysqlExec (raw_cli ?site')
        (UpdateReplace ''wp_options'' ''option_value'' ''http://example.com'' ''http://mysite.test'')]"
    by (simp add: performDirectSearchReplace_def cli all_succeed_def scripted_def respond_ok_def
          table_lines_example start_def prog_defs Let_def)
  have imported: "commands (trace (snd (importDatabase all_succeed ?site' (start 0)))) =
     [MysqlImport (admin_cli ?site') ''dump.sql'',
      MysqlExec (admin_cli ?site') OptimizeTables,
      MysqlExec (admin_cli ?site') RepairTables]"
    by (simp add: importDatabase_def source_set_def admin_cli_def all_succeed_def scripted_def
          respond_ok_def truthy_def site_of_def dedicated_user_config_def defaultConfig_def
          start_def prog_defs Let_def)
  show ?thesis
    using provisioned admin run imported by (simp add: cli)
qed

text \<open>
  Claim C2. A rule whose search and replace values are equal should run no command. The
  URL and the domain replacement are guarded by an inequality test; the loop over the
  additional replacements is not, and runs \<open>wp search-replace "staging" "staging"\<close>.
\<close>

theorem noop_rule_executed:
  "commands (trace (snd (performSearchReplace all_succeed (site_of noop_rule_config) (start 0)))) =
     [WpSearchReplace ''http://example.com'' ''http://mysite.test'' ''/srv/mysite'' [] [] [],
      WpSearchReplace ''example.com'' ''mysite.test'' ''/srv/mysite'' [] [] [],
      WpSearchReplace ''staging'' ''staging'' ''/srv/mysite'' [] [] []]"
  by (simp add: performSearchReplace_def main_url_replacement_def domain_replacement_def
        replace_with_fallback_def wp_search_replace_def noop_rule_config_def defaultConfig_def
        site_of_def all_succeed_def scripted_def respond_ok_def start_def truthy_def prog_defs Let_def)

subsection \<open>The readiness poll\<close>

lemma round_events_Suc:
  "round_events this (Suc k) = [Exec (Shell (testCommand this)), Sleep 2000] @ round_events this k"
  by (simp add: round_events_def)

lemma probe_failed_step:
  assumes "probe_fails env this (world st)" and "i < maxAttempts"
  shows "waitForMysql_loop env this i maxAttempts st =
         waitForMysql_loop env this (Suc i) maxAttempts
           \<lparr>world = after_probe env this (world st),
            trace = trace st @ [Exec (Shell (testCommand this)), Sleep 2000]\<rparr>"
proof -
  obtain r w' where e: "execSync env (Shell (testCommand this)) (world st) = (r, w')"
    by (cases "execSync env (Shell (testCommand this)) (world st)")
  with assms(1) obtain msg where "r = Inl msg"
    by (cases r) (auto simp: probe_fails_def)
  with e assms(2) show ?thesis
    by (subst waitForMysql_loop.simps)
       (simp add: exec_def call_def sleep_def emit_def after_probe_def)
qed

lemma probe_succeeded_step:
  assumes "\<not> probe_fails env this (world st)" and "i < maxAttempts"
  shows "waitForMysql_loop env this i maxAttempts st =
         (Inr (), \<lparr>world = after_probe env this (world st),
                   trace = trace st @ [Exec (Shell (testCommand this))]\<rparr>)"
proof -
  obtain r w' where e: "execSync env (Shell (testCommand this)) (world st) = (r, w')"
    by (cases "execSync env (Shell (testCommand this)) (world st)")
  with assms(1) obtain out where "r = Inr out"
    by (cases r) (auto simp: probe_fails_def)
  with e assms(2) show ?thesis
    by (subst waitForMysql_loop.simps)
       (simp add: exec_def call_def after_probe_def)
qed

lemma failed_rounds:
  assumes "\<forall>j<k. probe_fails env this ((after_probe env this ^^ j) (world st))"
      and "i + k \<le> maxAttempts"
  shows "waitForMysql_loop env this i maxAttempts st =
         waitForMysql_loop env this (i + k) maxAttempts
           \<lparr>world = (after_probe env this ^^ k) (world st),
            trace = trace st @ round_events this k\<rparr>"
  using assms
proof (induction k arbitrary: i st)
  case 0
  then show ?case by (cases st) (simp add: round_events_def)
next
  case (Suc k)
  let ?st1 = "\<lparr>world = after_probe env this (world st),
               trace = trace st @ [Exec (Shell (testCommand this)), Sleep 2000]\<rparr>"
  from Suc.prems(1) have first: "probe_fails env this (world st)"
    by (auto dest: spec [of _ 0])
  have rest: "\<forall>j<k. probe_fails env this ((after_probe env this ^^ j) (world ?st1))"
  proof (intro allI impI)
    fix j assume "j < k"
    with Suc.prems(1) have "probe_fails env this ((after_probe env this ^^ Suc j) (world st))"
      by auto
    then show "probe_fails env this ((after_probe env this ^^ j) (world ?st1))"
      by (simp add: funpow_swap1)
  qed
  from Suc.prems(2) have "i < maxAttempts" and "Suc i + k \<le> maxAttempts" by simp_all
  with probe_failed_step [OF first \<open>i < maxAttempts\<close>] Suc.IH [OF rest \<open>Suc i + k \<le> maxAttempts\<close>]
  show ?case
    by (simp add: round_events_Suc funpow_swap1)
qed

lemma loop_exhausted:
  "waitForMysql_loop env this maxAttempts maxAttempts st = (Inl timeout_message, st)"
  by (subst waitForMysql_loop.simps) (simp add: throw_def)

lemma commands_append: "commands (xs @ ys) = commands xs @ commands ys"
  by (induction xs rule: commands.induct) simp_all

lemma delay_total_append: "delay_total (xs @ ys) = delay_total xs + delay_total ys"
  by (induction xs rule: delay_total.induct) simp_all

lemma commands_round_events:
  "commands (round_events this k) = replicate k (Shell (testCommand this))"
  by (induction k) (simp_all add: round_events_def)

lemma delay_round_events: "delay_total (round_events this k) = 2000 * k"
  by (induction k) (simp_all add: round_events_def)

text \<open>
  Claim C4. The readiness bound. If the probe fails at each of the thirty attempts,
  \<open>waitForMysql\<close> runs exactly thirty probes, sleeps two seconds after each of them (sixty
  seconds in all, which is at least 58) and then throws the timeout error. If the probe
  fails \<open>k < 30\<close> times and then succeeds, the loop returns right after that probe, with
  \<open>k\<close> sleeps behind it and none after it.
\<close>

theorem readiness_bound:
  "((\<forall>j<30. probe_fails env this ((after_probe env this ^^ j) (world st))) \<longrightarrow>
      fst (waitForMysql env this st) = Inl timeout_message
      \<and> trace (snd (waitForMysql env this st)) = trace st @ round_events this 30
      \<and> length (commands (round_events this 30)) = 30
      \<and> delay_total (round_events this 30) = 60000)
   \<and> (k < 30 \<and> (\<forall>j<k. probe_fails env this ((after_probe env this ^^ j) (world st)))
        \<and> \<not> probe_fails env this ((after_probe env this ^^ k) (world st)) \<longrightarrow>
      fst (waitForMysql env this st) = Inr ()
      \<and> trace (snd (waitForMysql env this st)) =
          trace st @ round_events this k @ [Exec (Shell (testCommand this))])"
proof (intro conjI impI)
  assume all: "\<forall>j<30. probe_fails env this ((after_probe env this ^^ j) (world st))"
  from failed_rounds [OF all, of 0 30]
  have run: "waitForMysql env this st =
      (Inl timeout_message, \<lparr>world = (after_probe env this ^^ 30) (world st),
                              trace = trace st @ round_events this 30\<rparr>)"
    by (simp add: waitForMysql_def loop_exhausted)
  show "fst (waitForMysql env this st) = Inl timeout_message" by (simp add: run)
  show "trace (snd (waitForMysql env this st)) = trace st @ round_events this 30"
    by (simp add: run)
next
  show "length (commands (round_events this 30)) = 30"
    by (simp add: commands_round_events)
  show "delay_total (round_events this 30) = 60000"
    by (simp add: delay_round_events)
next
  assume h: "k < 30 \<and> (\<forall>j<k. probe_fails env this ((after_probe env this ^^ j) (world st)))
        \<and> \<not> probe_fails env this ((after_probe env this ^^ k) (world st))"
  then have k: "0 + k \<le> 30" and fails: "\<forall>j<k. probe_fails env this ((after_probe env this ^^ j) (world st))"
    by simp_all
  let ?stk = "\<lparr>world = (after_probe env this ^^ k) (world st), trace = trace st @ round_events this k\<rparr>"
  from h have ok: "\<not> probe_fails env this (world ?stk)" and lt: "k < 30" by simp_all
  from failed_rounds [OF fails k] probe_succeeded_step [OF ok lt]
  have run: "waitForMysql env this st =
      (Inr (), \<lparr>world = after_probe env this (world ?stk),
                trace = trace ?stk @ [Exec (Shell (testCommand this))]\<rparr>)"
    by (simp add: waitForMysql_def)
  show "fst (waitForMysql env this st) = Inr ()" by (simp add: run)
  show "trace (snd (waitForMysql env this st)) =
          trace st @ round_events this k @ [Exec (Shell (testCommand this))]"
    by (simp add: run)
qed



lemma after_probe_counts: "(after_probe (scripted f g) this ^^ j) w = w + j"
  by (induction j) (simp_all add: after_probe_def scripted_def)

text \<open>A server that never answers, and one that answers the fourth probe.\<close>

theorem readiness_bound_witness:
  "fst (waitForMysql all_fail (site_of defaultConfig) (start 0)) = Inl timeout_message
   \<and> delay_total (trace (snd (waitForMysql all_fail (site_of defaultConfig) (start 0)))) = 60000
   \<and> length (commands (trace (snd (waitForMysql all_fail (site_of defaultConfig) (start 0))))) = 30
   \<and> fst (waitForMysql flaky (site_of defaultConfig) (start 0)) = Inr ()
   \<and> length (commands (trace (snd (waitForMysql flaky (site_of defaultConfig) (start 0))))) = 4
   \<and> delay_total (trace (snd (waitForMysql flaky (site_of defaultConfig) (start 0)))) = 6000"
proof -
  have down: "\<forall>j<30. probe_fails all_fail (site_of defaultConfig)
                ((after_probe all_fail (site_of defaultConfig) ^^ j) (world (start 0)))"
    by (simp add: probe_fails_def all_fail_def scripted_def)
  have up: "(3::nat) < 30 \<and> (\<forall>j<3. probe_fails flaky (site_of defaultConfig)
                ((after_probe flaky (site_of defaultConfig) ^^ j) (world (start 0))))
        \<and> \<not> probe_fails flaky (site_of defaultConfig)
                ((after_probe flaky (site_of defaultConfig) ^^ 3) (world (start 0)))"
    unfolding flaky_def after_probe_counts
    by (simp add: probe_fails_def scripted_def start_def)
  from readiness_bound [of all_fail "site_of defaultConfig" "start 0" 0]
       readiness_bound [of flaky "site_of defaultConfig" "start 0" 3] down up
  show ?thesis
    by (simp add: start_def commands_round_events delay_round_events commands_append
          delay_total_append)
qed

subsection \<open>The fallback salts\<close>

lemma charAt_in_range: "i < length s \<Longrightarrow> charAt s i = [s ! i]"
  by (simp add: charAt_def)

lemma random_chars_shape:
  assumes "random_in_range env" and "chars \<noteq> []"
  shows "length (fst (random_chars env chars n w)) = n
       \<and> set (fst (random_chars env chars n w)) \<subseteq> set chars"
proof (induction n arbitrary: w)
  case 0
  show ?case by simp
next
  case (Suc n)
  obtain i w1 where d: "randomBelow env (length chars) w = (i, w1)"
    by (cases "randomBelow env (length chars) w")
  with assms have i: "i < length chars"
    by (auto simp: random_in_range_def dest!: spec [of _ "length chars"] dest: spec [of _ w])
  obtain rest w2 where r: "random_chars env chars n w1 = (rest, w2)"
    by (cases "random_chars env chars n w1")
  with Suc.IH [of w1] have "length rest = n" and "set rest \<subseteq> set chars" by simp_all
  with d r i show ?case by (simp add: charAt_in_range)
qed

lemma generateKey_shape:
  assumes "random_in_range env"
  shows "salt_value (fst (generateKey env w))"
  using random_chars_shape [OF assms, of salt_chars 64 w]
  by (simp add: salt_value_def generateKey_def salt_chars_def)

lemma salt_lines_shape:
  assumes "random_in_range env"
  shows "\<exists>vs. length vs = length kns \<and> list_all salt_value vs
            \<and> fst (salt_lines env kns w) = concat (map2 salt_line kns vs)"
proof (induction kns arbitrary: w)
  case Nil
  show ?case by simp
next
  case (Cons kn kns)
  obtain v w1 where k: "generateKey env w = (v, w1)" by (cases "generateKey env w")
  with generateKey_shape [OF assms, of w] have v: "salt_value v" by simp
  from Cons.IH [of w1] obtain vs where vs: "length vs = length kns" "list_all salt_value vs"
      "fst (salt_lines env kns w1) = concat (map2 salt_line kns vs)"
    by blast
  obtain rest w2 where r: "salt_lines env kns w1 = (rest, w2)" by (cases "salt_lines env kns w1")
  with k vs v have "length (v # vs) = length (kn # kns) \<and> list_all salt_value (v # vs)
      \<and> fst (salt_lines env (kn # kns) w) = concat (map2 salt_line (kn # kns) (v # vs))"
    by simp
  then show ?case by blast
qed

lemma eight_values:
  assumes "length vs = (8::nat)"
  obtains v1 v2 v3 v4 v5 v6 v7 v8 where "vs = [v1, v2, v3, v4, v5, v6, v7, v8]"
  using assms by (auto simp: eval_nat_numeral length_Suc_conv)

text \<open>
  Claim C7. The shape of the fallback salts. Whenever the request to the salt service
  throws, \<open>generateSalts\<close> returns eight lines, one for each of the eight key names in the
  order of the template, each of the form \<open>define( 'NAME',<blanks>'<value>' );\<close> after a
  line break, where every value has exactly 64 characters of the 72-character alphabet of
  letters, digits and punctuation.
\<close>

theorem salts_fallback_shape:
  assumes "random_in_range env"
      and "fst (axiosGet env salt_url (world st)) = Inl e"
  shows "\<exists>v1 v2 v3 v4 v5 v6 v7 v8.
           list_all salt_value [v1, v2, v3, v4, v5, v6, v7, v8]
         \<and> fst (generateSalts env st) = Inr
             (salt_line (''AUTH_KEY'', 9) v1 @ salt_line (''SECURE_AUTH_KEY'', 2) v2 @
              salt_line (''LOGGED_IN_KEY'', 4) v3 @ salt_line (''NONCE_KEY'', 8) v4 @
              salt_line (''AUTH_SALT'', 8) v5 @ salt_line (''SECURE_AUTH_SALT'', 1) v6 @
              salt_line (''LOGGED_IN_SALT'', 3) v7 @ salt_line (''NONCE_SALT'', 7) v8)"
proof -
  obtain w1 where get: "axiosGet env salt_url (world st) = (Inl e, w1)"
    using assms(2) by (cases "axiosGet env salt_url (world st)") simp
  from salt_lines_shape [OF assms(1), of salt_names w1]
  obtain vs where vs: "length vs = length salt_names" "list_all salt_value vs"
      "fst (salt_lines env salt_names w1) = concat (map2 salt_line salt_names vs)"
    by blast
  from vs(1) have "length vs = 8" by (simp add: salt_names_def)
  then obtain v1 v2 v3 v4 v5 v6 v7 v8 where eq: "vs = [v1, v2, v3, v4, v5, v6, v7, v8]"
    by (rule eight_values)
  have run: "fst (generateSalts env st) = Inr (fst (salt_lines env salt_names w1))"
    using get by (simp add: generateSalts_def call_def split: prod.splits)
  have expand: "concat (map2 salt_line salt_names [v1, v2, v3, v4, v5, v6, v7, v8]) =
      salt_line (''AUTH_KEY'', 9) v1 @ salt_line (''SECURE_AUTH_KEY'', 2) v2 @
      salt_line (''LOGGED_IN_KEY'', 4) v3 @ salt_line (''NONCE_KEY'', 8) v4 @
      salt_line (''AUTH_SALT'', 8) v5 @ salt_line (''SECURE_AUTH_SALT'', 1) v6 @
      salt_line (''LOGGED_IN_SALT'', 3) v7 @ salt_line (''NONCE_SALT'', 7) v8"
    by (simp add: salt_names_def)
  from vs(2) eq have "list_all salt_value [v1, v2, v3, v4, v5, v6, v7, v8]"
    by (simp only:)
  moreover from run vs(3) eq expand
  have "fst (generateSalts env st) = Inr
      (salt_line (''AUTH_KEY'', 9) v1 @ salt_line (''SECURE_AUTH_KEY'', 2) v2 @
       salt_line (''LOGGED_IN_KEY'', 4) v3 @ salt_line (''NONCE_KEY'', 8) v4 @
       salt_line (''AUTH_SALT'', 8) v5 @ salt_line (''SECURE_AUTH_SALT'', 1) v6 @
       salt_line (''LOGGED_IN_SALT'', 3) v7 @ salt_line (''NONCE_SALT'', 7) v8)"
    by (simp only:)
  ultimately show ?thesis by blast
qed

text \<open>The salt service is unreachable in the environment \<open>all_fail\<close>.\<close>

theorem salts_fallback_shape_witness:
  "\<exists>v1 v2 v3 v4 v5 v6 v7 v8.
           list_all salt_value [v1, v2, v3, v4, v5, v6, v7, v8]
         \<and> fst (generateSalts all_fail (start 0)) = Inr
             (salt_line (''AUTH_KEY'', 9) v1 @ salt_line (''SECURE_AUTH_KEY'', 2) v2 @
              salt_line (''LOGGED_IN_KEY'', 4) v3 @ salt_line (''NONCE_KEY'', 8) v4 @
              salt_line (''AUTH_SALT'', 8) v5 @ salt_line (''SECURE_AUTH_SALT'', 1) v6 @
              salt_line (''LOGGED_IN_SALT'', 3) v7 @ salt_line (''NONCE_SALT'', 7) v8)"
proof -
  have rng: "random_in_range all_fail"
    by (simp add: random_in_range_def all_fail_def scripted_def)
  have down: "fst (axiosGet all_fail salt_url (world (start 0))) = Inl ''ENOTFOUND''"
    by (simp add: all_fail_def scripted_def)
  from salts_fallback_shape [OF rng down] show ?thesis .
qed

subsection \<open>The existence check\<close>

lemma checkAdminUserExists_result:
  "fst (checkAdminUserExists env this st) =
     (case fst (execSync env (MysqlExec (admin_cli this)
                  (CountUsers (db_prefix (database (config this))) (wp_adminUser (config this))))
                (world st)) of
        Inl error \<Rightarrow> Inr False
      | Inr output \<Rightarrow> Inr (count_positive output))"
  by (simp add: checkAdminUserExists_def prog_defs split: prod.splits sum.splits)

lemma count_query_failed_absent: "count_query_failed (Inr output) \<Longrightarrow> count_positive output = False"
  by (auto simp: count_positive_def split: list.splits)

text \<open>
  Claim C8. The existence check fails open. \<open>checkAdminUserExists\<close> never throws. When the
  count command throws, prints no data line, or prints a first data line that is not a
  number, it answers that the account is absent, and \<open>manageAdminUser\<close> goes on with
  \<open>createAdminUser\<close> from the state the check left.
\<close>

theorem existence_check_fails_open:
  "\<not> isl (fst (checkAdminUserExists env this st))
   \<and> (count_query_failed (fst (execSync env (MysqlExec (admin_cli this)
          (CountUsers (db_prefix (database (config this))) (wp_adminUser (config this))))
          (world st))) \<longrightarrow>
        fst (checkAdminUserExists env this st) = Inr False
        \<and> (source_set this \<longrightarrow>
             manageAdminUser env this st =
             createAdminUser env this (snd (checkAdminUserExists env this st))))"
proof (intro conjI impI)
  show "\<not> isl (fst (checkAdminUserExists env this st))"
    by (simp add: checkAdminUserExists_result split: sum.splits)
next
  assume failed: "count_query_failed (fst (execSync env (MysqlExec (admin_cli this)
          (CountUsers (db_prefix (database (config this))) (wp_adminUser (config this))))
          (world st)))"
  then show absent: "fst (checkAdminUserExists env this st) = Inr False"
    by (cases "fst (execSync env (MysqlExec (admin_cli this)
          (CountUsers (db_prefix (database (config this))) (wp_adminUser (config this))))
          (world st))")
       (simp_all add: checkAdminUserExists_result count_query_failed_absent)
  assume "source_set this"
  then show "manageAdminUser env this st =
             createAdminUser env this (snd (checkAdminUserExists env this st))"
    using absent
    by (cases "checkAdminUserExists env this st") (simp add: manageAdminUser_def bind_def)
qed





lemma garbled_is_failure: "count_query_failed (Inr garbled_output)"
proof -
  have lines: "data_lines ''count'' garbled_output = [''NULL'']"
    by (simp add: garbled_output_def data_lines_def js_trim_def truthy_def js_space_def nl_def)
  have trimmed: "js_trim ''NULL'' = ''NULL''"
    by (simp add: js_trim_def js_space_def)
  have no_digit: "digit_of 10 (CHR ''N'') = None"
    by (simp add: digit_of_def digit_table_def)
  have "parseInt ''NULL'' = None"
    by (simp add: parseInt_def no_digit js_space_def)
  with lines trimmed show ?thesis by simp
qed

text \<open>The count query answers \<open>NULL\<close>: the account is taken as absent and created.\<close>

theorem existence_check_fails_open_witness:
  "fst (checkAdminUserExists garbled (site_of migrate_config) (start 0)) = Inr False
   \<and> manageAdminUser garbled (site_of migrate_config) (start 0) =
       createAdminUser garbled (site_of migrate_config)
         (snd (checkAdminUserExists garbled (site_of migrate_config) (start 0)))"
proof -
  have src: "source_set (site_of migrate_config)"
    by (simp add: source_set_def site_of_def migrate_config_def defaultConfig_def truthy_def)
  have out: "fst (execSync garbled cmd w) = Inr garbled_output" for cmd w
    by (simp add: garbled_def scripted_def)
  from existence_check_fails_open [of garbled "site_of migrate_config" "start 0"]
  show ?thesis
    using src garbled_is_failure by (simp add: out)
qed

subsection \<open>Provisioning\<close>

lemma executed_append: "executed (xs @ ys) = executed xs @ executed ys"
  by (induction xs rule: executed.induct) simp_all

lemma quiet_ok: "quiet (ok x)"
  by (simp add: quiet_def ok_def)

lemma quiet_throw: "quiet (throw e)"
  by (simp add: quiet_def throw_def)

lemma quiet_exec: "quiet (exec env cmd)"
  by (simp add: quiet_def exec_def call_def split: prod.splits)

lemma quiet_connect: "quiet (call (Connect h u p n) f)"
  by (simp add: quiet_def call_def split: prod.splits)

lemma quiet_bind:
  assumes "quiet m" and "\<And>x. quiet (f x)"
  shows "quiet (bind m f)"
  unfolding quiet_def
proof
  fix st
  obtain r st' where m: "m st = (r, st')" by (cases "m st")
  from assms(1) m obtain evs where e: "trace st' = trace st @ evs" "executed evs = []"
    by (auto simp: quiet_def dest!: spec [of _ st])
  show "\<exists>evs. trace (snd (bind m f st)) = trace st @ evs \<and> executed evs = []"
  proof (cases r)
    case (Inl msg)
    with m e show ?thesis by (simp add: bind_def)
  next
    case (Inr x)
    from assms(2) [of x] obtain evs' where
      "trace (snd (f x st')) = trace st' @ evs'" "executed evs' = []"
      by (auto simp: quiet_def dest!: spec [of _ st'])
    with m e Inr have "trace (snd (bind m f st)) = trace st @ (evs @ evs')
        \<and> executed (evs @ evs') = []"
      by (simp add: bind_def executed_append)
    then show ?thesis by blast
  qed
qed

lemma quiet_try_catch:
  assumes "quiet m" and "\<And>e. quiet (h e)"
  shows "quiet (try_catch m h)"
  unfolding quiet_def
proof
  fix st
  obtain r st' where m: "m st = (r, st')" by (cases "m st")
  from assms(1) m obtain evs where e: "trace st' = trace st @ evs" "executed evs = []"
    by (auto simp: quiet_def dest!: spec [of _ st])
  show "\<exists>evs. trace (snd (try_catch m h st)) = trace st @ evs \<and> executed evs = []"
  proof (cases r)
    case (Inr x)
    with m e show ?thesis by (simp add: try_catch_def)
  next
    case (Inl msg)
    from assms(2) [of msg] obtain evs' where
      "trace (snd (h msg st')) = trace st' @ evs'" "executed evs' = []"
      by (auto simp: quiet_def dest!: spec [of _ st'])
    with m e Inl have "trace (snd (try_catch m h st)) = trace st @ (evs @ evs')
        \<and> executed (evs @ evs') = []"
      by (simp add: try_catch_def executed_append)
    then show ?thesis by blast
  qed
qed

lemma waitForMysql_loop_trace:
  "\<exists>evs. trace (snd (waitForMysql_loop env this i maxAttempts st)) = trace st @ evs
         \<and> executed evs = []"
proof (induction env this i maxAttempts st rule: waitForMysql_loop.induct)
  case (1 env this i maxAttempts st)
  show ?case
  proof (cases "i < maxAttempts")
    case False
    then show ?thesis
      by (subst waitForMysql_loop.simps) (simp add: throw_def)
  next
    case True
    obtain r st1 where e: "exec env (Shell (testCommand this)) st = (r, st1)"
      by (cases "exec env (Shell (testCommand this)) st")
    then have t1: "trace st1 = trace st @ [Exec (Shell (testCommand this))]"
      by (auto simp: exec_def call_def split: prod.splits)
    show ?thesis
    proof (cases r)
      case (Inr out)
      with True e t1 show ?thesis
        by (subst waitForMysql_loop.simps) simp
    next
      case (Inl msg)
      from "1.IH" [OF True e [symmetric] Inl]
      obtain evs where "trace (snd (waitForMysql_loop env this (Suc i) maxAttempts (snd (sleep 2000 st1))))
          = trace (snd (sleep 2000 st1)) @ evs" "executed evs = []"
        by blast
      with True e t1 Inl have
        "trace (snd (waitForMysql_loop env this i maxAttempts st)) =
           trace st @ ([Exec (Shell (testCommand this)), Sleep 2000] @ evs)
         \<and> executed ([Exec (Shell (testCommand this)), Sleep 2000] @ evs) = []"
        by (subst waitForMysql_loop.simps) (simp add: sleep_def emit_def)
      then show ?thesis by blast
    qed
  qed
qed

lemma quiet_waitForMysql: "quiet (waitForMysql env this)"
  using waitForMysql_loop_trace [of env this 0 30]
  by (simp add: quiet_def waitForMysql_def)

lemma quiet_createDockerMysql: "quiet (createDockerMysql env this)"
  by (auto simp: createDockerMysql_def Let_def
           intro!: quiet_bind quiet_try_catch quiet_exec quiet_ok quiet_throw quiet_waitForMysql)

lemma quiet_ensureDockerMysql: "quiet (ensureDockerMysql env this)"
  by (auto simp: ensureDockerMysql_def Let_def
           intro!: quiet_bind quiet_try_catch quiet_exec quiet_ok quiet_waitForMysql
                   quiet_createDockerMysql)

lemma quiet_connect_configured: "quiet (connect_configured env this)"
  by (auto simp: connect_configured_def Let_def
           intro!: quiet_bind quiet_connect quiet_ok quiet_ensureDockerMysql)

lemma grows_call: "grows (call ev f)"
  by (simp add: grows_def call_def split: prod.splits)

lemma grows_create_dedicated_user: "grows (create_dedicated_user env this)"
proof -
  have g: "grows (bind (conn_execute env a) (\<lambda>_. bind (conn_execute env b)
             (\<lambda>_. bind (conn_execute env c) (\<lambda>_. ok x))))" for a b c and x :: wordpress_setup
    by (intro grows_bind grows_ok) (simp_all add: conn_execute_def grows_call)
  show ?thesis
    unfolding grows_def
  proof
    fix st :: "'a state"
    obtain pw w1 where p: "generateRandomPassword env 16 (world st) = (pw, w1)"
      by (cases "generateRandomPassword env 16 (world st)")
    from g have "prefix (trace (st\<lparr>world := w1\<rparr>))
        (trace (snd (bind (conn_execute env a) (\<lambda>_. bind (conn_execute env b)
             (\<lambda>_. bind (conn_execute env c) (\<lambda>_. ok x))) (st\<lparr>world := w1\<rparr>))))"
      for a b c and x :: wordpress_setup
      unfolding grows_def by blast
    with p show "prefix (trace st) (trace (snd (create_dedicated_user env this st)))"
      by (simp add: create_dedicated_user_def Let_def)
  qed
qed

lemma grows_finish_provisioning: "grows (finish_provisioning env this)"
  by (auto simp: finish_provisioning_def
           intro!: grows_bind grows_ok grows_call grows_create_dedicated_user)

lemma createDatabase_steps:
  assumes "\<not> advanced_skipDatabaseCreation (config this)"
  shows "createDatabase env this st =
     (case connect_configured env this st of
        (Inl e, st0) \<Rightarrow> (Inl e, st0)
      | (Inr u, st0) \<Rightarrow>
         (case execute env (provisioning_statements this ! 0) (world st0) of
            (Inl e, w1) \<Rightarrow> (Inl e, \<lparr>world = w1, trace = trace st0 @ map Execute (take 1 (provisioning_statements this))\<rparr>)
          | (Inr r1, w1) \<Rightarrow>
             (case execute env (provisioning_statements this ! 1) w1 of
                (Inl e, w2) \<Rightarrow> (Inl e, \<lparr>world = w2, trace = trace st0 @ map Execute (take 2 (provisioning_statements this))\<rparr>)
              | (Inr r2, w2) \<Rightarrow>
                 (case execute env (provisioning_statements this ! 2) w2 of
                    (Inl e, w3) \<Rightarrow> (Inl e, \<lparr>world = w3, trace = trace st0 @ map Execute (provisioning_statements this)\<rparr>)
                  | (Inr rows, w3) \<Rightarrow>
                      if rows = []
                      then (Inl (''Failed to create database: '' @ dbName this),
                            \<lparr>world = w3, trace = trace st0 @ map Execute (provisioning_statements this)\<rparr>)
                      else finish_provisioning env this
                             \<lparr>world = w3, trace = trace st0 @ map Execute (provisioning_statements this)\<rparr>))))"
  using assms
  by (simp add: createDatabase_def finish_provisioning_def provisioning_statements_def Let_def
        bind_def conn_execute_def call_def throw_def split: prod.splits sum.splits)

lemma executed_map_Execute: "executed (map Execute stmts) = stmts"
  by (induction stmts) simp_all

lemma new_events_append: "trace st' = trace st @ evs \<Longrightarrow> new_events st st' = evs"
  by (simp add: new_events_def)

text \<open>
  Claim C6. Drop, create, verify. Unless the stage is configured to be skipped, the
  statements \<open>createDatabase\<close> sends start with the drop of the database, its creation
  with the configured charset and collation, and the query for its existence, in this
  order and as far as the run gets; a run that returns normally has sent all three. When
  the connection is open, the drop and the creation succeed and the query returns no row,
  the stage throws \<open>Failed to create database\<close> right after the query.
\<close>

theorem drop_create_verify:
  assumes "\<not> advanced_skipDatabaseCreation (config this)"
  shows "prefix (take 3 (executed (new_events st (snd (createDatabase env this st)))))
           (provisioning_statements this)
       \<and> (\<not> isl (fst (createDatabase env this st)) \<longrightarrow>
            take 3 (executed (new_events st (snd (createDatabase env this st)))) =
            provisioning_statements this)
       \<and> (connect_configured env this st = (Inr (), st0)
            \<and> execute env (DropDatabaseIfExists (dbName this)) (world st0) = (Inr r1, w1)
            \<and> execute env (CreateDatabase (dbName this) (db_charset (database (config this)))
                  (db_collate (database (config this)))) w1 = (Inr r2, w2)
            \<and> execute env (ShowDatabasesLike (dbName this)) w2 = (Inr [], w3) \<longrightarrow>
            createDatabase env this st =
              (Inl (''Failed to create database: '' @ dbName this),
               \<lparr>world = w3, trace = trace st0 @ map Execute (provisioning_statements this)\<rparr>))"
proof (intro conjI impI)
  obtain r0 st0' where c: "connect_configured env this st = (r0, st0')"
    by (cases "connect_configured env this st")
  from quiet_connect_configured [of env this] c
  obtain evs0 where e0: "trace st0' = trace st @ evs0" "executed evs0 = []"
    by (auto simp: quiet_def dest!: spec [of _ st])
  have fin: "\<exists>more. trace (snd (finish_provisioning env this
               \<lparr>world = w, trace = trace st0' @ map Execute (provisioning_statements this)\<rparr>)) =
             trace st @ evs0 @ map Execute (provisioning_statements this) @ more" for w
    using grows_finish_provisioning [of env this] e0(1)
    by (auto simp: grows_def prefix_def dest!: spec [of _ "\<lparr>world = w, trace = trace st0' @ map Execute (provisioning_statements this)\<rparr>"])
  have shape: "\<exists>evs. trace (snd (createDatabase env this st)) = trace st @ evs
      \<and> prefix (take 3 (executed evs)) (provisioning_statements this)
      \<and> (\<not> isl (fst (createDatabase env this st)) \<longrightarrow>
             take 3 (executed evs) = provisioning_statements this)"
  proof (cases r0)
    case (Inl e)
    with c e0 assms show ?thesis
      by (simp add: createDatabase_steps)
  next
    case (Inr u)
    obtain r1 w1 where x1: "execute env (provisioning_statements this ! 0) (world st0') = (r1, w1)"
      by (cases "execute env (provisioning_statements this ! 0) (world st0')")
    obtain r2 w2 where x2: "execute env (provisioning_statements this ! 1) w1 = (r2, w2)"
      by (cases "execute env (provisioning_statements this ! 1) w1")
    obtain r3 w3 where x3: "execute env (provisioning_statements this ! 2) w2 = (r3, w3)"
      by (cases "execute env (provisioning_statements this ! 2) w2")
    have len: "length (provisioning_statements this) = 3"
      by (simp add: provisioning_statements_def)
    show ?thesis
    proof (cases r1)
      case (Inl e)
      with c Inr x1 e0 assms show ?thesis
        by (simp add: createDatabase_steps executed_append executed_map_Execute take_is_prefix)
    next
      case r1: (Inr a)
      show ?thesis
      proof (cases r2)
        case (Inl e)
        with c Inr x1 r1 x2 e0 assms show ?thesis
          by (simp add: createDatabase_steps executed_append executed_map_Execute take_is_prefix)
      next
        case r2: (Inr b)
        show ?thesis
        proof (cases r3)
          case (Inl e)
          with c Inr x1 r1 x2 r2 x3 e0 assms show ?thesis
            by (simp add: createDatabase_steps executed_append executed_map_Execute len)
        next
          case r3: (Inr rows)
          show ?thesis
          proof (cases "rows = []")
            case True
            with c Inr x1 r1 x2 r2 x3 r3 e0 assms show ?thesis
              by (simp add: createDatabase_steps executed_append executed_map_Execute len)
          next
            case False
            from fin [of w3] obtain more where
              "trace (snd (finish_provisioning env this
                 \<lparr>world = w3, trace = trace st0' @ map Execute (provisioning_statements this)\<rparr>)) =
               trace st @ evs0 @ map Execute (provisioning_statements this) @ more"
              by blast
            with c Inr x1 r1 x2 r2 x3 r3 False e0 assms
            have "trace (snd (createDatabase env this st)) =
                    trace st @ (evs0 @ map Execute (provisioning_statements this) @ more)
                \<and> take 3 (executed (evs0 @ map Execute (provisioning_statements this) @ more)) =
                    provisioning_statements this"
              by (simp add: createDatabase_steps executed_append executed_map_Execute len)
            then show ?thesis by (metis prefix_order.order_refl)
          qed
        qed
      qed
    qed
  qed
  then obtain evs where evs: "trace (snd (createDatabase env this st)) = trace st @ evs"
      "prefix (take 3 (executed evs)) (provisioning_statements this)"
      "\<not> isl (fst (createDatabase env this st)) \<longrightarrow>
         take 3 (executed evs) = provisioning_statements this"
    by blast
  from new_events_append [OF evs(1)] evs(2)
  show "prefix (take 3 (executed (new_events st (snd (createDatabase env this st)))))
           (provisioning_statements this)"
    by simp
  {
    assume "\<not> isl (fst (createDatabase env this st))"
    with new_events_append [OF evs(1)] evs(3)
    show "take 3 (executed (new_events st (snd (createDatabase env this st)))) =
            provisioning_statements this"
      by simp
  }
next
  assume "connect_configured env this st = (Inr (), st0)
            \<and> execute env (DropDatabaseIfExists (dbName this)) (world st0) = (Inr r1, w1)
            \<and> execute env (CreateDatabase (dbName this) (db_charset (database (config this)))
                  (db_collate (database (config this)))) w1 = (Inr r2, w2)
            \<and> execute env (ShowDatabasesLike (dbName this)) w2 = (Inr [], w3)"
  with assms show "createDatabase env this st =
              (Inl (''Failed to create database: '' @ dbName this),
               \<lparr>world = w3, trace = trace st0 @ map Execute (provisioning_statements this)\<rparr>)"
    by (simp add: createDatabase_steps) (simp add: provisioning_statements_def)
qed

text \<open>
  A server whose existence query returns no row, and a run that succeeds in dedicated-user
  mode.
\<close>

theorem drop_create_verify_witness:
  "createDatabase empty_requery (site_of defaultConfig) (start 0) =
     (Inl ''Failed to create database: wp_mysite'',
      \<lparr>world = 0,
       trace = [Connect ''localhost'' ''root'' [] 3306,
                Execute (DropDatabaseIfExists ''wp_mysite''),
                Execute (CreateDatabase ''wp_mysite'' ''utf8mb4'' ''utf8mb4_unicode_ci''),
                Execute (ShowDatabasesLike ''wp_mysite'')]\<rparr>)
   \<and> take 3 (executed (new_events (start 0)
         (snd (createDatabase all_succeed (site_of dedicated_user_config) (start 0))))) =
       [DropDatabaseIfExists ''wp_mysite'',
        CreateDatabase ''wp_mysite'' ''utf8mb4'' ''utf8mb4_unicode_ci'',
        ShowDatabasesLike ''wp_mysite'']"
proof -
  let ?site = "site_of defaultConfig"
  have run: "\<not> advanced_skipDatabaseCreation (config ?site)"
    by (simp add: site_of_def defaultConfig_def)
  have connected: "connect_configured empty_requery ?site (start 0) =
      (Inr (), \<lparr>world = 0, trace = [Connect ''localhost'' ''root'' [] 3306]\<rparr>)"
    by (simp add: connect_configured_def site_of_def defaultConfig_def empty_requery_def
          scripted_def start_def prog_defs)
  have answers:
    "execute empty_requery (DropDatabaseIfExists (dbName ?site)) 0 = (Inr [''OK''], 0)"
    "execute empty_requery (CreateDatabase (dbName ?site) (db_charset (database (config ?site)))
        (db_collate (database (config ?site)))) 0 = (Inr [''OK''], 0)"
    "execute empty_requery (ShowDatabasesLike (dbName ?site)) 0 = (Inr [], 0)"
    by (simp_all add: empty_requery_def scripted_def)
  have stmts: "provisioning_statements ?site =
      [DropDatabaseIfExists ''wp_mysite'',
       CreateDatabase ''wp_mysite'' ''utf8mb4'' ''utf8mb4_unicode_ci'',
       ShowDatabasesLike ''wp_mysite'']"
    by (simp add: provisioning_statements_def site_of_def defaultConfig_def)
  have name: "dbName ?site = ''wp_mysite''"
    by (simp add: site_of_def)
  from drop_create_verify [OF run, of "start 0" empty_requery
         "\<lparr>world = 0, trace = [Connect ''localhost'' ''root'' [] 3306]\<rparr>" "[''OK'']" 0 "[''OK'']" 0 0]
       connected answers
  have first: "createDatabase empty_requery ?site (start 0) =
     (Inl (''Failed to create database: '' @ dbName ?site),
      \<lparr>world = 0, trace = [Connect ''localhost'' ''root'' [] 3306] @
                 map Execute (provisioning_statements ?site)\<rparr>)"
    by simp
  let ?site2 = "site_of dedicated_user_config"
  have run2: "\<not> advanced_skipDatabaseCreation (config ?site2)"
    by (simp add: site_of_def dedicated_user_config_def defaultConfig_def)
  have stmts2: "provisioning_statements ?site2 =
      [DropDatabaseIfExists ''wp_mysite'',
       CreateDatabase ''wp_mysite'' ''utf8mb4'' ''utf8mb4_unicode_ci'',
       ShowDatabasesLike ''wp_mysite'']"
    by (simp add: provisioning_statements_def site_of_def dedicated_user_config_def defaultConfig_def)
  from drop_create_verify [OF run2, of "start 0" all_succeed] provisioned
  have second: "take 3 (executed (new_events (start 0)
         (snd (createDatabase all_succeed ?site2 (start 0))))) = provisioning_statements ?site2"
    by simp
  from first second show ?thesis
    by (simp add: stmts stmts2 name)
qed

subsection \<open>The configuration patcher run twice\<close>

lemmas patcher_defs = updateWpConfig_def replace_database_configuration_def add_salts_def
  add_development_settings_def add_security_settings_def add_performance_settings_def
  add_custom_lines_def ensure_wp_settings_def insert_before_marker_def defined_in_def
  define_stmt_def js_replace_def define_re_def stop_editing_re_def lit_def js_or_def truthy_def
  stop_editing_def wp_settings_require_def js_space_def sq_def dq_def nl_def

lemma first_run:
  "updateWpConfig (site_of custom_lines_config) sample_salts sample_wp_config = patched_once"
  by (simp add: patcher_defs site_of_def custom_lines_config_def defaultConfig_def
        sample_salts_def sample_wp_config_def patched_once_def js_nat_3306)

lemma second_run:
  "updateWpConfig (site_of custom_lines_config) sample_salts patched_once = patched_twice"
  by (simp add: patcher_defs site_of_def custom_lines_config_def defaultConfig_def
        sample_salts_def patched_once_def patched_twice_def js_nat_3306)

text \<open>
  Claim C1. Patching its own output again should leave the text unchanged. The salts, the
  debug flags, the file-edit lockout and the memory limit are inserted behind a search for
  their key; the custom lines are inserted without one. With one custom line the second run
  inserts the line a second time.
\<close>

theorem custom_lines_duplicated:
  "updateWpConfig (site_of custom_lines_config) sample_salts sample_wp_config = patched_once
   \<and> updateWpConfig (site_of custom_lines_config) sample_salts patched_once = patched_twice
   \<and> patched_twice \<noteq> patched_once"
  using first_run second_run
  by (simp add: patched_once_def patched_twice_def nl_def)

subsection \<open>Reading the output of the mysql client\<close>





















subsection \<open>Admin reconciliation against the reference database\<close>

text \<open>
  The commands of the admin stage on the reference database. Whatever the shell leaves of
  the hash, \<open>sh\<close>, and whichever commands fail, \<open>fails\<close>, are left open throughout.
\<close>

lemma exec_db_failed:
  assumes "fails (step (world st))"
  shows "exec (db_env fails wp_hash md5 sh) cmd st =
     (Inl ''Command failed'',
      \<lparr>world = (world st)\<lparr>step := Suc (step (world st))\<rparr>, trace = trace st @ [Exec cmd]\<rparr>)"
  using assms by (simp add: exec_def call_def db_env_def db_exec_def)

lemma exec_db_statement:
  assumes "\<not> fails (step (world st))"
  shows "exec (db_env fails wp_hash md5 sh) (MysqlExec cli stmt) st =
     (fst (mysql_run (through_shell sh stmt) (db (world st))),
      \<lparr>world = \<lparr>db = snd (mysql_run (through_shell sh stmt) (db (world st))),
                step = Suc (step (world st))\<rparr>,
       trace = trace st @ [Exec (MysqlExec cli stmt)]\<rparr>)"
  using assms by (simp add: exec_def call_def db_env_def db_exec_def split: prod.splits)

lemma exec_db_hash:
  assumes "\<not> fails (step (world st))"
  shows "exec (db_env fails wp_hash md5 sh) (WpHashPassword password path) st =
     (Inr (wp_hash password),
      \<lparr>world = (world st)\<lparr>step := Suc (step (world st))\<rparr>,
       trace = trace st @ [Exec (WpHashPassword password path)]\<rparr>)"
  using assms by (simp add: exec_def call_def db_env_def db_exec_def)

lemma hash_step:
  "\<exists>h. hashWordPressPassword (db_env fails wp_hash md5 sh) this password st =
       (Inr h, \<lparr>world = (world st)\<lparr>step := Suc (step (world st))\<rparr>,
                trace = trace st @ [Exec (WpHashPassword password (websitePath this))]\<rparr>)"
proof (cases "fails (step (world st))")
  case True
  then show ?thesis
    by (simp add: hashWordPressPassword_def try_catch_def bind_def ok_def exec_db_failed)
next
  case False
  then show ?thesis
    by (simp add: hashWordPressPassword_def try_catch_def bind_def ok_def exec_db_hash)
qed




lemma update_needs_table:
  assumes "table_prefix (db (world st)) \<noteq> users_prefix this"
  shows "fst (updateAdminUserPassword (db_env fails wp_hash md5 sh) this st) \<noteq> Inr ()"
proof -
  from hash_step [of fails wp_hash md5 sh this "adminPassword this" st]
  obtain h where run: "hashWordPressPassword (db_env fails wp_hash md5 sh) this (adminPassword this) st =
       (Inr h, \<lparr>world = (world st)\<lparr>step := Suc (step (world st))\<rparr>,
                trace = trace st @ [Exec (WpHashPassword (adminPassword this) (websitePath this))]\<rparr>)"
    by blast
  show ?thesis
  proof (cases "fails (Suc (step (world st)))")
    case True
    with run show ?thesis
      by (simp add: updateAdminUserPassword_def bind_def exec_db_failed)
  next
    case False
    with run assms show ?thesis
      by (auto simp: updateAdminUserPassword_def bind_def ok_def exec_db_statement users_prefix_def)
  qed
qed















end
